theory Spec2Isabelle
  imports Complex_Main "HOL-Library.Sublist" "HOL-Library.Multiset"
begin

section \<open>Python values and the library functions the program calls\<close>

text \<open>
  The program is \<^verbatim>\<open>integrador.py\<close>, a menu-driven catalogue of countries kept in
  \<^verbatim>\<open>paises.csv\<close>. A Python \<^verbatim>\<open>str\<close> is the list of its Unicode code points.
  What the interpreter and its standard library decide (case mapping, canonical
  decomposition, general categories, \<^verbatim>\<open>str.isdigit\<close>, \<^verbatim>\<open>int\<close>) is not code of the
  program: it is taken as a parameter, a record of functions, so that the general
  theorems below hold for every such library. A concrete fragment of it, covering Basic
  Latin and the Latin-1 Supplement, is defined further down for the worked examples.
\<close>

type_synonym str = "nat list"

text \<open>\<open>u\<close> turns an ASCII literal into a \<^verbatim>\<open>str\<close>: \<open>u ''ab''\<close> is \<open>[97, 98]\<close>.\<close>

definition u :: "string \<Rightarrow> str" where
  "u cs = map of_char cs"

datatype excepcion = EOFError | ValueError | OSError | KeyError | AttributeError

record pylib =
  py_isspace :: "nat \<Rightarrow> bool"
  py_lower :: "str \<Rightarrow> str"
  py_nfd :: "str \<Rightarrow> str"
  py_category_Mn :: "nat \<Rightarrow> bool"
  py_isdigit :: "str \<Rightarrow> bool"
  py_int :: "str \<Rightarrow> int option"

text \<open>
  \<^verbatim>\<open>py_isspace\<close> is the whitespace test of \<^verbatim>\<open>str.strip()\<close> and \<^verbatim>\<open>str.split()\<close>,
  \<^verbatim>\<open>py_lower\<close> is \<^verbatim>\<open>str.lower\<close>, \<^verbatim>\<open>py_nfd s\<close> is \<^verbatim>\<open>unicodedata.normalize('NFD', s)\<close>,
  \<^verbatim>\<open>py_category_Mn c\<close> is \<^verbatim>\<open>unicodedata.category(c) == 'Mn'\<close>, \<^verbatim>\<open>py_isdigit\<close> is
  \<^verbatim>\<open>str.isdigit\<close> and \<^verbatim>\<open>py_int s\<close> is \<^verbatim>\<open>int(s)\<close>, with \<open>None\<close> where Python raises
  \<^verbatim>\<open>ValueError\<close>.
\<close>

definition strip :: "pylib \<Rightarrow> str \<Rightarrow> str" where
  "strip L s = rev (dropWhile (py_isspace L) (rev (dropWhile (py_isspace L) s)))"

text \<open>\<^verbatim>\<open>s.split()\<close>: the maximal runs of non-whitespace; \<open>w\<close> is the run being read.\<close>

fun split_desde :: "pylib \<Rightarrow> str \<Rightarrow> str \<Rightarrow> str list" where
  "split_desde L w [] = (if w = [] then [] else [w])"
| "split_desde L w (c # cs) =
     (if py_isspace L c then (if w = [] then [] else [w]) @ split_desde L [] cs
      else split_desde L (w @ [c]) cs)"

definition split :: "pylib \<Rightarrow> str \<Rightarrow> str list" where
  "split L s = split_desde L [] s"

fun join :: "str \<Rightarrow> str list \<Rightarrow> str" where
  "join sep [] = []"
| "join sep [w] = w"
| "join sep (w # ws) = w @ sep @ join sep ws"

text \<open>\<^verbatim>\<open>x in y\<close> on two strings: \<open>x\<close> occurs in \<open>y\<close> as a contiguous block.\<close>

fun str_in :: "str \<Rightarrow> str \<Rightarrow> bool" where
  "str_in x [] = (x = [])"
| "str_in x (c # cs) = (prefix x (c # cs) \<or> str_in x cs)"

section \<open>Utilities of the program\<close>

text \<open>
  \<^verbatim>\<open>
  def normalizar(texto):
      texto = " ".join(texto.strip().lower().split())
      texto = ''.join(c for c in unicodedata.normalize('NFD', texto)
                      if unicodedata.category(c) != 'Mn')
      return texto
  \<close>
\<close>

definition normalizar :: "pylib \<Rightarrow> str \<Rightarrow> str" where
  "normalizar L texto =
     (let texto1 = join [32] (split L (py_lower L (strip L texto)))
      in filter (\<lambda>c. \<not> py_category_Mn L c) (py_nfd L texto1))"

text \<open>
  A country is a dict with the four keys below. \<^verbatim>\<open>continente\<close> is \<open>None\<close> for a
  record loaded from a CSV row that has no fourth field (\<^verbatim>\<open>csv.DictReader\<close> fills the
  missing keys with Python's \<^verbatim>\<open>None\<close>).
\<close>

record pais =
  nombre :: str
  poblacion :: int
  superficie :: int
  continente :: "str option"

text \<open>
  \<^verbatim>\<open>
  def buscar_pais(paises_catalogo, nombre):
      nombre_norm = normalizar(nombre)
      return [p for p in paises_catalogo if nombre_norm in normalizar(p['nombre'])]
  \<close>
\<close>

definition buscar_pais :: "pylib \<Rightarrow> pais list \<Rightarrow> str \<Rightarrow> pais list" where
  "buscar_pais L paises_catalogo nom =
     (let nombre_norm = normalizar L nom
      in filter (\<lambda>p. str_in nombre_norm (normalizar L (nombre p))) paises_catalogo)"

text \<open>
  The list comprehension of \<^verbatim>\<open>buscar_pais\<close> collects references to the dicts of the
  catalogue, and \<^verbatim>\<open>actualizar_pais\<close> writes through the first of them. Every entry of
  the catalogue is an object of its own (each is built by a dict literal in
  \<^verbatim>\<open>leer_archivo\<close> or \<^verbatim>\<open>agregar_pais\<close> and appended once), so a reference is modelled
  by the position of the entry in the catalogue. \<open>buscar_refs\<close> is the same comprehension
  returning positions; \<open>buscar_pais\<close> is the list of the entries at these positions.
\<close>

definition buscar_refs :: "pylib \<Rightarrow> pais list \<Rightarrow> str \<Rightarrow> nat list" where
  "buscar_refs L paises_catalogo nom =
     (let nombre_norm = normalizar L nom
      in filter (\<lambda>i. str_in nombre_norm (normalizar L (nombre (paises_catalogo ! i))))
           [0 ..< length paises_catalogo])"

section \<open>The state: catalogue, standard input and the CSV file\<close>

text \<open>
  \<^verbatim>\<open>catalogo\<close> is the list \<^verbatim>\<open>paises_catalogo\<close> that \<^verbatim>\<open>menu\<close> creates and passes to every
  operation; \<^verbatim>\<open>entrada\<close> holds the lines still to be read by \<^verbatim>\<open>input()\<close>; \<^verbatim>\<open>archivo\<close> is
  \<^verbatim>\<open>paises.csv\<close> as the rows of fields the \<^verbatim>\<open>csv\<close> module writes and reads (\<open>None\<close>:
  the file does not exist); \<^verbatim>\<open>escribible\<close> tells whether \<^verbatim>\<open>open(nombre_archivo, 'w')\<close>
  succeeds. When it does not, Python raises \<^verbatim>\<open>OSError\<close> and the file is left as it was.
\<close>

record estado =
  catalogo :: "pais list"
  entrada :: "str list"
  archivo :: "str list list option"
  escribible :: bool

text \<open>The messages the operations print before they return.\<close>

datatype mensaje =
  Nombre_vacio | Pais_ya_existe | Datos_invalidos | Pais_agregado
  | No_encontrado | Datos_actualizados | Valores_invalidos | Catalogo_vacio

text \<open>\<^verbatim>\<open>input(...)\<close>: the next line of standard input; \<open>None\<close> is \<^verbatim>\<open>EOFError\<close>.\<close>

definition input :: "estado \<Rightarrow> (str \<times> estado) option" where
  "input s = (case entrada s of [] \<Rightarrow> None | l # ls \<Rightarrow> Some (l, s\<lparr>entrada := ls\<rparr>))"

text \<open>\<^verbatim>\<open>str(n)\<close> for an integer, as the \<^verbatim>\<open>csv\<close> writer renders a number.\<close>

fun str_nat :: "nat \<Rightarrow> str" where
  "str_nat n = (if n < 10 then [48 + n] else str_nat (n div 10) @ [48 + n mod 10])"

declare str_nat.simps [simp del]

definition str_int :: "int \<Rightarrow> str" where
  "str_int i = (if i < 0 then 45 # str_nat (nat (- i)) else str_nat (nat i))"

definition encabezado :: "str list" where
  "encabezado = [u ''nombre'', u ''poblacion'', u ''superficie'', u ''continente'']"

text \<open>
  \<^verbatim>\<open>
  def crear_sino_existe():
      if not os.path.exists(nombre_archivo):
          with open(nombre_archivo, 'w', newline='', encoding='utf-8') as f:
              writer = csv.writer(f)
              writer.writerow(['nombre', 'poblacion', 'superficie', 'continente'])
  \<close>
\<close>

definition crear_sino_existe :: "estado \<Rightarrow> excepcion + estado" where
  "crear_sino_existe s =
     (if archivo s = None then
        (if escribible s then Inr (s\<lparr>archivo := Some [encabezado]\<rparr>) else Inl OSError)
      else Inr s)"

text \<open>
  The row \<^verbatim>\<open>csv.DictWriter\<close> writes for a dict: the values of the four field names in
  order, a number as its decimal text and \<^verbatim>\<open>None\<close> as the empty string.
\<close>

definition fila_csv :: "pais \<Rightarrow> str list" where
  "fila_csv p =
     [nombre p, str_int (poblacion p), str_int (superficie p),
      (case continente p of None \<Rightarrow> [] | Some c \<Rightarrow> c)]"

text \<open>
  \<^verbatim>\<open>
  def guardar_archivo(paises_catalogo):
      with open(nombre_archivo, 'w', newline='', encoding='utf-8') as f:
          writer = csv.DictWriter(f, fieldnames=['nombre','poblacion','superficie','continente'])
          writer.writeheader()
          writer.writerows(paises_catalogo)
  \<close>
\<close>

definition guardar_archivo :: "pais list \<Rightarrow> estado \<Rightarrow> excepcion + estado" where
  "guardar_archivo paises_catalogo s =
     (if escribible s
      then Inr (s\<lparr>archivo := Some (encabezado # map fila_csv paises_catalogo)\<rparr>)
      else Inl OSError)"

text \<open>
  \<^verbatim>\<open>csv.DictReader\<close>: the first row of the file gives the field names; every later row
  that is not empty becomes a dict. \<^verbatim>\<open>dict(zip(fieldnames, row))\<close> lets a later column
  of the same name win, and the field names beyond the end of a short row are then set
  to \<^verbatim>\<open>None\<close>. A value is \<open>Some t\<close> for the text \<open>t\<close> and \<open>None\<close> for Python's \<^verbatim>\<open>None\<close>;
  a key that is not in the dict raises \<^verbatim>\<open>KeyError\<close> when it is read.
\<close>

definition fila_dict :: "str list \<Rightarrow> str list \<Rightarrow> (str \<rightharpoonup> str option)" where
  "fila_dict campos fila =
     map_of (rev (zip campos
       (map Some fila @ replicate (length campos - length fila) None)))"

text \<open>
  The body of the loop of \<^verbatim>\<open>leer_archivo\<close>, for one dict \<^verbatim>\<open>fila\<close>:
  \<^verbatim>\<open>
  if fila['nombre'] and fila['poblacion'].isdigit() and fila['superficie'].isdigit():
      paises_catalogo.append({
          'nombre': fila['nombre'],
          'poblacion': int(fila['poblacion']),
          'superficie': int(fila['superficie']),
          'continente': fila['continente']
      })
  \<close>
  The result is the record to append, \<open>None\<close> when the row is skipped, or the exception
  raised: \<^verbatim>\<open>and\<close> evaluates from the left and stops at the first false operand, and
  \<^verbatim>\<open>None.isdigit()\<close> raises \<^verbatim>\<open>AttributeError\<close>.
\<close>

definition leer_fila :: "pylib \<Rightarrow> (str \<rightharpoonup> str option) \<Rightarrow> excepcion + pais option" where
  "leer_fila L fila =
     (case fila (u ''nombre'') of None \<Rightarrow> Inl KeyError
      | Some None \<Rightarrow> Inr None
      | Some (Some nom) \<Rightarrow>
     if nom = [] then Inr None else
     (case fila (u ''poblacion'') of None \<Rightarrow> Inl KeyError
      | Some None \<Rightarrow> Inl AttributeError
      | Some (Some pob) \<Rightarrow>
     if \<not> py_isdigit L pob then Inr None else
     (case fila (u ''superficie'') of None \<Rightarrow> Inl KeyError
      | Some None \<Rightarrow> Inl AttributeError
      | Some (Some supe) \<Rightarrow>
     if \<not> py_isdigit L supe then Inr None else
     (case py_int L pob of None \<Rightarrow> Inl ValueError | Some n \<Rightarrow>
     (case py_int L supe of None \<Rightarrow> Inl ValueError | Some m \<Rightarrow>
     (case fila (u ''continente'') of None \<Rightarrow> Inl KeyError
      | Some cont \<Rightarrow>
        Inr (Some \<lparr>nombre = nom, poblacion = n, superficie = m, continente = cont\<rparr>)))))))"

fun leer_filas :: "pylib \<Rightarrow> str list \<Rightarrow> str list list \<Rightarrow> pais list \<Rightarrow> excepcion + pais list" where
  "leer_filas L campos [] paises_catalogo = Inr paises_catalogo"
| "leer_filas L campos (fila # filas) paises_catalogo =
     (if fila = [] then leer_filas L campos filas paises_catalogo
      else case leer_fila L (fila_dict campos fila) of
             Inl e \<Rightarrow> Inl e
           | Inr None \<Rightarrow> leer_filas L campos filas paises_catalogo
           | Inr (Some p) \<Rightarrow> leer_filas L campos filas (paises_catalogo @ [p]))"

text \<open>
  \<^verbatim>\<open>
  def leer_archivo():
      crear_sino_existe()
      paises_catalogo = []
      with open(nombre_archivo, 'r', newline='', encoding='utf-8') as f:
          reader = csv.DictReader(f)
          for fila in reader:
              ...
      return paises_catalogo
  \<close>
  A file with no row at all has no field names and yields no dict.
\<close>

definition leer_archivo :: "pylib \<Rightarrow> estado \<Rightarrow> (excepcion + pais list) \<times> estado" where
  "leer_archivo L s =
     (case crear_sino_existe s of
        Inl e \<Rightarrow> (Inl e, s)
      | Inr s1 \<Rightarrow>
          (case archivo s1 of
             None \<Rightarrow> (Inl OSError, s1)
           | Some [] \<Rightarrow> (Inr [], s1)
           | Some (campos # filas) \<Rightarrow> (leer_filas L campos filas [], s1)))"

section \<open>The operations of the menu\<close>

text \<open>
  Each operation takes the state and returns what it printed (or the exception that
  left it) together with the state afterwards. An exception leaves the state as it is
  at the raise: nothing in the program catches one.
  \<^verbatim>\<open>
  def agregar_pais(paises_catalogo):
      nombre = input("Nombre del pais: ").strip()
      if not nombre:
          print("Nombre vacio.")
          return
      if buscar_pais(paises_catalogo, nombre):
          print("El pais ya existe.")
          return
      poblacion = input("Poblacion: ")
      superficie = input("Superficie: ")
      continente = input("Continente: ").strip()
      if not (poblacion.isdigit() and superficie.isdigit()) or not continente:
          print("Datos invalidos.")
          return
      paises_catalogo.append({
          'nombre': nombre,
          'poblacion': int(poblacion),
          'superficie': int(superficie),
          'continente': continente
      })
      guardar_archivo(paises_catalogo)
      print("Pais agregado.")
  \<close>
  The dict literal is evaluated before \<^verbatim>\<open>append\<close> is called, so a \<^verbatim>\<open>ValueError\<close> of
  \<^verbatim>\<open>int\<close> leaves the catalogue as it was; \<^verbatim>\<open>guardar_archivo\<close> runs after the append.
\<close>

definition agregar_pais :: "pylib \<Rightarrow> estado \<Rightarrow> (excepcion + mensaje) \<times> estado" where
  "agregar_pais L s0 =
     (case input s0 of None \<Rightarrow> (Inl EOFError, s0) | Some (l1, s1) \<Rightarrow>
      let nom = strip L l1 in
      if nom = [] then (Inr Nombre_vacio, s1)
      else if buscar_pais L (catalogo s1) nom \<noteq> [] then (Inr Pais_ya_existe, s1)
      else
     (case input s1 of None \<Rightarrow> (Inl EOFError, s1) | Some (pob_txt, s2) \<Rightarrow>
     (case input s2 of None \<Rightarrow> (Inl EOFError, s2) | Some (sup_txt, s3) \<Rightarrow>
     (case input s3 of None \<Rightarrow> (Inl EOFError, s3) | Some (l4, s4) \<Rightarrow>
      let cont = strip L l4 in
      if \<not> (py_isdigit L pob_txt \<and> py_isdigit L sup_txt) \<or> cont = []
      then (Inr Datos_invalidos, s4)
      else
     (case py_int L pob_txt of None \<Rightarrow> (Inl ValueError, s4) | Some pob \<Rightarrow>
     (case py_int L sup_txt of None \<Rightarrow> (Inl ValueError, s4) | Some supe \<Rightarrow>
      let s5 = s4\<lparr>catalogo := catalogo s4 @
                 [\<lparr>nombre = nom, poblacion = pob, superficie = supe, continente = Some cont\<rparr>]\<rparr>
      in (case guardar_archivo (catalogo s5) s5 of
            Inl e \<Rightarrow> (Inl e, s5)
          | Inr s6 \<Rightarrow> (Inr Pais_agregado, s6))))))))"

text \<open>
  \<^verbatim>\<open>
  def actualizar_pais(paises_catalogo):
      nombre = input("Pais a actualizar: ")
      encontrados = buscar_pais(paises_catalogo, nombre)
      if not encontrados:
          print("No encontrado.")
          return
      pais = encontrados[0]
      poblacion = input("Nueva poblacion: ")
      superficie = input("Nueva superficie: ")
      if poblacion.isdigit() and superficie.isdigit():
          pais['poblacion'] = int(poblacion)
          pais['superficie'] = int(superficie)
          guardar_archivo(paises_catalogo)
          print("Datos actualizados.")
      else:
          print("Valores invalidos.")
  \<close>
  \<^verbatim>\<open>pais\<close> is a reference into the catalogue (a position, see \<open>buscar_refs\<close>); the two
  assignments are two writes, the first done before the second \<^verbatim>\<open>int\<close> is evaluated.
\<close>

definition actualizar_pais :: "pylib \<Rightarrow> estado \<Rightarrow> (excepcion + mensaje) \<times> estado" where
  "actualizar_pais L s0 =
     (case input s0 of None \<Rightarrow> (Inl EOFError, s0) | Some (nom, s1) \<Rightarrow>
     (case buscar_refs L (catalogo s1) nom of
        [] \<Rightarrow> (Inr No_encontrado, s1)
      | i # _ \<Rightarrow>
     (case input s1 of None \<Rightarrow> (Inl EOFError, s1) | Some (pob_txt, s2) \<Rightarrow>
     (case input s2 of None \<Rightarrow> (Inl EOFError, s2) | Some (sup_txt, s3) \<Rightarrow>
      if py_isdigit L pob_txt \<and> py_isdigit L sup_txt then
       (case py_int L pob_txt of None \<Rightarrow> (Inl ValueError, s3) | Some pob \<Rightarrow>
        let s4 = s3\<lparr>catalogo := (catalogo s3)[i := (catalogo s3 ! i)\<lparr>poblacion := pob\<rparr>]\<rparr> in
       (case py_int L sup_txt of None \<Rightarrow> (Inl ValueError, s4) | Some supe \<Rightarrow>
        let s5 = s4\<lparr>catalogo := (catalogo s4)[i := (catalogo s4 ! i)\<lparr>superficie := supe\<rparr>]\<rparr>
        in (case guardar_archivo (catalogo s5) s5 of
              Inl e \<Rightarrow> (Inl e, s5)
            | Inr s6 \<Rightarrow> (Inr Datos_actualizados, s6))))
      else (Inr Valores_invalidos, s3)))))"

text \<open>
  Option 3 of \<^verbatim>\<open>menu\<close>:
  \<^verbatim>\<open>
  nombre = input("Nombre: ")
  resultados = buscar_pais(paises_catalogo, nombre)
  \<close>
  followed by a print of the results.
\<close>

definition menu_buscar :: "pylib \<Rightarrow> estado \<Rightarrow> (excepcion + pais list) \<times> estado" where
  "menu_buscar L s0 =
     (case input s0 of None \<Rightarrow> (Inl EOFError, s0)
      | Some (nom, s1) \<Rightarrow> (Inr (buscar_pais L (catalogo s1) nom), s1))"

text \<open>
  \<^verbatim>\<open>
  def filtrar_poblacion(paises_catalogo):
      minimo = int(input("Poblacion minima: "))
      maximo = int(input("Poblacion maxima: "))
      filtrados = [p for p in paises_catalogo if minimo <= p['poblacion'] <= maximo]
      print(filtrados if filtrados else "Ningun pais encontrado.")
  \<close>
  and the same for \<^verbatim>\<open>filtrar_superficie\<close> on \<^verbatim>\<open>p['superficie']\<close>. The result of the model is
  the list \<^verbatim>\<open>filtrados\<close>; the line printed is that list, or the message when it is empty.
\<close>

definition filtrar_poblacion :: "pylib \<Rightarrow> estado \<Rightarrow> (excepcion + pais list) \<times> estado" where
  "filtrar_poblacion L s0 =
     (case input s0 of None \<Rightarrow> (Inl EOFError, s0) | Some (l1, s1) \<Rightarrow>
     (case py_int L l1 of None \<Rightarrow> (Inl ValueError, s1) | Some minimo \<Rightarrow>
     (case input s1 of None \<Rightarrow> (Inl EOFError, s1) | Some (l2, s2) \<Rightarrow>
     (case py_int L l2 of None \<Rightarrow> (Inl ValueError, s2) | Some maximo \<Rightarrow>
        (Inr (filter (\<lambda>p. minimo \<le> poblacion p \<and> poblacion p \<le> maximo) (catalogo s2)),
         s2)))))"

definition filtrar_superficie :: "pylib \<Rightarrow> estado \<Rightarrow> (excepcion + pais list) \<times> estado" where
  "filtrar_superficie L s0 =
     (case input s0 of None \<Rightarrow> (Inl EOFError, s0) | Some (l1, s1) \<Rightarrow>
     (case py_int L l1 of None \<Rightarrow> (Inl ValueError, s1) | Some minimo \<Rightarrow>
     (case input s1 of None \<Rightarrow> (Inl EOFError, s1) | Some (l2, s2) \<Rightarrow>
     (case py_int L l2 of None \<Rightarrow> (Inl ValueError, s2) | Some maximo \<Rightarrow>
        (Inr (filter (\<lambda>p. minimo \<le> superficie p \<and> superficie p \<le> maximo) (catalogo s2)),
         s2)))))"

text \<open>
  \<^verbatim>\<open>sorted(xs, key=f, reverse=r)\<close> is a builtin of the interpreter: a stable sort by the
  key; with \<^verbatim>\<open>reverse=True\<close> the interpreter reverses the list, sorts it and reverses
  the result. \<^verbatim>\<open>max(xs, key=f)\<close> and \<^verbatim>\<open>min(xs, key=f)\<close> scan from the left and replace
  the candidate only by a strictly greater (smaller) element.
\<close>

definition sorted_py :: "('a \<Rightarrow> int) \<Rightarrow> bool \<Rightarrow> 'a list \<Rightarrow> 'a list" where
  "sorted_py key reverse xs =
     (if reverse then rev (sort_key key (rev xs)) else sort_key key xs)"

fun max_desde :: "('a \<Rightarrow> int) \<Rightarrow> 'a \<Rightarrow> 'a list \<Rightarrow> 'a" where
  "max_desde key m [] = m"
| "max_desde key m (x # xs) = max_desde key (if key x > key m then x else m) xs"

fun min_desde :: "('a \<Rightarrow> int) \<Rightarrow> 'a \<Rightarrow> 'a list \<Rightarrow> 'a" where
  "min_desde key m [] = m"
| "min_desde key m (x # xs) = min_desde key (if key x < key m then x else m) xs"

definition clave_poblacion :: "pais \<Rightarrow> int" where
  "clave_poblacion p = poblacion p"

definition clave_superficie :: "pais \<Rightarrow> int" where
  "clave_superficie p = superficie p"

text \<open>
  \<^verbatim>\<open>
  def ordenar_por_superficie(paises_catalogo, asc=True):
      for p in sorted(paises_catalogo, key=clave_superficie, reverse=not asc):
          print(p)
  \<close>
  The result of the model is the sequence of records printed.
\<close>

definition ordenar_por_superficie :: "pais list \<Rightarrow> bool \<Rightarrow> pais list" where
  "ordenar_por_superficie paises_catalogo asc =
     sorted_py clave_superficie (\<not> asc) paises_catalogo"

text \<open>
  \<^verbatim>\<open>
  def estadisticas(paises_catalogo):
      if not paises_catalogo:
          print("Catalogo vacio.")
          return
      mayor = max(paises_catalogo, key=clave_poblacion)
      menor = min(paises_catalogo, key=clave_poblacion)
      prom_pob = sum(p['poblacion'] for p in paises_catalogo) / len(paises_catalogo)
      prom_sup = sum(p['superficie'] for p in paises_catalogo) / len(paises_catalogo)
      continentes = {}
      for p in paises_catalogo:
          continentes[p['continente']] = continentes.get(p['continente'], 0) + 1
  \<close>
  followed by a print of the five values. The two quotients are kept exact, as rational
  numbers: Python's \<^verbatim>\<open>/\<close> returns the binary64 number nearest to the quotient (and raises
  \<^verbatim>\<open>OverflowError\<close> when it is beyond the binary64 range), which this model does not
  represent.
\<close>

record estadistica =
  mayor :: pais
  menor :: pais
  prom_pob :: rat
  prom_sup :: rat
  continentes :: "str option \<rightharpoonup> int"

definition contar :: "pais \<Rightarrow> (str option \<rightharpoonup> int) \<Rightarrow> (str option \<rightharpoonup> int)" where
  "contar p c =
     c(continente p \<mapsto> (case c (continente p) of None \<Rightarrow> 0 | Some n \<Rightarrow> n) + 1)"

definition estadisticas :: "pais list \<Rightarrow> mensaje + estadistica" where
  "estadisticas paises_catalogo =
     (case paises_catalogo of
        [] \<Rightarrow> Inl Catalogo_vacio
      | p # ps \<Rightarrow>
          Inr \<lparr>mayor = max_desde clave_poblacion p ps,
               menor = min_desde clave_poblacion p ps,
               prom_pob = of_int (sum_list (map poblacion paises_catalogo))
                          / of_nat (length paises_catalogo),
               prom_sup = of_int (sum_list (map superficie paises_catalogo))
                          / of_nat (length paises_catalogo),
               continentes = fold contar paises_catalogo Map.empty\<rparr>)"

section \<open>A concrete library for the worked examples\<close>

text \<open>
  The tables below are those of Python 3 on the code points 0 to 255 (Basic Latin and
  the Latin-1 Supplement) and on the combining marks U+0300 to U+036F; a code point
  outside these ranges is taken to have no case mapping and no decomposition. They are
  used only to evaluate the operations on concrete inputs.
\<close>

definition isspace_latin1 :: "nat \<Rightarrow> bool" where
  "isspace_latin1 c \<longleftrightarrow> c \<in> set [9, 10, 11, 12, 13, 28, 29, 30, 31, 32, 133, 160]"

definition lower_latin1 :: "nat \<Rightarrow> nat" where
  "lower_latin1 c =
     (if (65 \<le> c \<and> c \<le> 90) \<or> (192 \<le> c \<and> c \<le> 222 \<and> c \<noteq> 215) then c + 32 else c)"

definition descomposicion_latin1 :: "(nat \<times> str) list" where
  "descomposicion_latin1 =
    [(192, [65, 768]), (193, [65, 769]), (194, [65, 770]), (195, [65, 771]),
     (196, [65, 776]), (197, [65, 778]), (199, [67, 807]), (200, [69, 768]),
     (201, [69, 769]), (202, [69, 770]), (203, [69, 776]), (204, [73, 768]),
     (205, [73, 769]), (206, [73, 770]), (207, [73, 776]), (209, [78, 771]),
     (210, [79, 768]), (211, [79, 769]), (212, [79, 770]), (213, [79, 771]),
     (214, [79, 776]), (217, [85, 768]), (218, [85, 769]), (219, [85, 770]),
     (220, [85, 776]), (221, [89, 769]), (224, [97, 768]), (225, [97, 769]),
     (226, [97, 770]), (227, [97, 771]), (228, [97, 776]), (229, [97, 778]),
     (231, [99, 807]), (232, [101, 768]), (233, [101, 769]), (234, [101, 770]),
     (235, [101, 776]), (236, [105, 768]), (237, [105, 769]), (238, [105, 770]),
     (239, [105, 776]), (241, [110, 771]), (242, [111, 768]), (243, [111, 769]),
     (244, [111, 770]), (245, [111, 771]), (246, [111, 776]), (249, [117, 768]),
     (250, [117, 769]), (251, [117, 770]), (252, [117, 776]), (253, [121, 769]),
     (255, [121, 776])]"

definition descomponer_latin1 :: "nat \<Rightarrow> str" where
  "descomponer_latin1 c = (case map_of descomposicion_latin1 c of None \<Rightarrow> [c] | Some d \<Rightarrow> d)"

definition nfd_latin1 :: "str \<Rightarrow> str" where
  "nfd_latin1 s = concat (map descomponer_latin1 s)"

definition category_Mn_latin1 :: "nat \<Rightarrow> bool" where
  "category_Mn_latin1 c \<longleftrightarrow> 768 \<le> c \<and> c \<le> 879"

definition isdigit_latin1 :: "str \<Rightarrow> bool" where
  "isdigit_latin1 s \<longleftrightarrow>
     s \<noteq> [] \<and> list_all (\<lambda>c. (48 \<le> c \<and> c \<le> 57) \<or> c \<in> set [178, 179, 185]) s"

text \<open>
  \<^verbatim>\<open>int(s)\<close>: surrounding whitespace is dropped, one sign is allowed, the digits may be
  grouped by single underscores, and more than 4300 digits are refused (the default
  limit of the interpreter). The whitespace \<^verbatim>\<open>int\<close> drops is not that of \<^verbatim>\<open>str.strip\<close>: the
  separators U+001C to U+001F are not dropped.
\<close>

definition espacio_int_latin1 :: "nat \<Rightarrow> bool" where
  "espacio_int_latin1 c \<longleftrightarrow> c \<in> set [9, 10, 11, 12, 13, 32, 133, 160]"

fun grupos_validos :: "bool \<Rightarrow> str \<Rightarrow> bool" where
  "grupos_validos tras_digito [] = tras_digito"
| "grupos_validos tras_digito (c # cs) =
     (if 48 \<le> c \<and> c \<le> 57 then grupos_validos True cs
      else if c = 95 then tras_digito \<and> cs \<noteq> [] \<and> hd cs \<noteq> 95 \<and> grupos_validos False cs
      else False)"

definition valor_decimal :: "str \<Rightarrow> nat" where
  "valor_decimal ds = fold (\<lambda>c n. 10 * n + (c - 48)) ds 0"

definition int_latin1 :: "str \<Rightarrow> int option" where
  "int_latin1 s =
     (let t = rev (dropWhile espacio_int_latin1 (rev (dropWhile espacio_int_latin1 s)));
          negativo = (t \<noteq> [] \<and> hd t = 45);
          cuerpo = (if t \<noteq> [] \<and> (hd t = 45 \<or> hd t = 43) then tl t else t);
          ds = filter (\<lambda>c. c \<noteq> 95) cuerpo
      in if grupos_validos False cuerpo \<and> length ds \<le> 4300
         then Some (if negativo then - int (valor_decimal ds) else int (valor_decimal ds))
         else None)"

definition py_latin1 :: pylib where
  "py_latin1 =
     \<lparr>py_isspace = isspace_latin1, py_lower = map lower_latin1, py_nfd = nfd_latin1,
      py_category_Mn = category_Mn_latin1, py_isdigit = isdigit_latin1,
      py_int = int_latin1\<rparr>"

section \<open>Notions of the specification\<close>

text \<open>
  The specification's match of a query against a record: the normalized query is a
  substring of the normalized name.
\<close>

definition coincide :: "pylib \<Rightarrow> str \<Rightarrow> pais \<Rightarrow> bool" where
  "coincide L q p \<longleftrightarrow> sublist (normalizar L q) (normalizar L (nombre p))"



text \<open>No two records have names of the same normal form.\<close>

definition sin_duplicados :: "pylib \<Rightarrow> pais list \<Rightarrow> bool" where
  "sin_duplicados L cat \<longleftrightarrow> distinct (map (\<lambda>p. normalizar L (nombre p)) cat)"

text \<open>
  The states the menu loop reaches from a state \<open>s\<close> by adds and updates: before each
  operation the user may have typed any lines, and the file may or may not be writable.
  The state an operation leaves is kept also when it ends in an exception.
\<close>

inductive alcanzable :: "pylib \<Rightarrow> estado \<Rightarrow> estado \<Rightarrow> bool" for L :: pylib and s :: estado where
  inicio: "alcanzable L s s"
| alta: "alcanzable L s t \<Longrightarrow>
           alcanzable L s (snd (agregar_pais L (t\<lparr>entrada := ls, escribible := w\<rparr>)))"
| actualizacion: "alcanzable L s t \<Longrightarrow>
           alcanzable L s (snd (actualizar_pais L (t\<lparr>entrada := ls, escribible := w\<rparr>)))"

text \<open>
  The validation of the specification: a non-empty name, a non-negative population and
  area, and a non-empty continent.
\<close>

definition valido :: "pais \<Rightarrow> bool" where
  "valido p \<longleftrightarrow>
     nombre p \<noteq> [] \<and> 0 \<le> poblacion p \<and> 0 \<le> superficie p
     \<and> (case continente p of None \<Rightarrow> False | Some c \<Rightarrow> c \<noteq> [])"

text \<open>What \<^verbatim>\<open>leer_archivo\<close> checks: the same without the continent.\<close>

definition valido_carga :: "pais \<Rightarrow> bool" where
  "valido_carga p \<longleftrightarrow> nombre p \<noteq> [] \<and> 0 \<le> poblacion p \<and> 0 \<le> superficie p"

text \<open>
  A property of the library that the non-negativity of the stored numbers rests on: a
  string accepted by \<^verbatim>\<open>str.isdigit\<close> names no negative integer.
\<close>

definition digitos_no_negativos :: "pylib \<Rightarrow> bool" where
  "digitos_no_negativos L \<longleftrightarrow> (\<forall>t n. py_isdigit L t \<and> py_int L t = Some n \<longrightarrow> 0 \<le> n)"

text \<open>
  A stored row under the header written by the program: field \<open>i\<close> of the row, or
  \<open>None\<close> when the row is too short. A row is accepted when its name is not empty and
  its population and area fields satisfy \<^verbatim>\<open>isdigit\<close>; \<open>registro_de\<close> relates a loaded
  record to the row it was read from.
\<close>

definition campo :: "str list \<Rightarrow> nat \<Rightarrow> str option" where
  "campo fila i = (if i < length fila then Some (fila ! i) else None)"

definition fila_aceptada :: "pylib \<Rightarrow> str list \<Rightarrow> bool" where
  "fila_aceptada L fila \<longleftrightarrow>
     3 \<le> length fila \<and> fila ! 0 \<noteq> [] \<and> py_isdigit L (fila ! 1) \<and> py_isdigit L (fila ! 2)"

definition registro_de :: "pylib \<Rightarrow> pais \<Rightarrow> str list \<Rightarrow> bool" where
  "registro_de L p fila \<longleftrightarrow>
     nombre p = fila ! 0 \<and> py_int L (fila ! 1) = Some (poblacion p)
     \<and> py_int L (fila ! 2) = Some (superficie p) \<and> continente p = campo fila 3"

section \<open>Data for the worked examples\<close>

text \<open>
  \<open>ej_estado cat lineas\<close> is a state of the running program: the catalogue \<open>cat\<close> in
  memory, its snapshot in the file, a writable file, and \<open>lineas\<close> waiting on standard
  input.
\<close>

definition ej_chile :: pais where
  "ej_chile = \<lparr>nombre = u ''Chile'', poblacion = 19, superficie = 756,
                continente = Some (u ''America'')\<rparr>"

text \<open>The name of \<open>ej_peru\<close> ends in U+00FA, the letter u with an acute accent.\<close>

definition ej_peru :: pais where
  "ej_peru = \<lparr>nombre = u ''Per'' @ [250], poblacion = 33, superficie = 1285,
               continente = Some (u ''America'')\<rparr>"

definition ej_china :: pais where
  "ej_china = \<lparr>nombre = u ''China'', poblacion = 1400, superficie = 9597,
                continente = Some (u ''Asia'')\<rparr>"

definition ej_india :: pais where
  "ej_india = \<lparr>nombre = u ''India'', poblacion = 1400, superficie = 3287,
                continente = Some (u ''Asia'')\<rparr>"

definition ej_indiana :: pais where
  "ej_indiana = \<lparr>nombre = u ''Indiana'', poblacion = 7, superficie = 94,
                  continente = Some (u ''America'')\<rparr>"

definition ej_nigeria :: pais where
  "ej_nigeria = \<lparr>nombre = u ''Nigeria'', poblacion = 223, superficie = 923,
                  continente = Some (u ''Africa'')\<rparr>"

text \<open>Three records with populations 10, 20, 30 and areas 10, 30, 10.\<close>

definition ej_A :: pais where
  "ej_A = \<lparr>nombre = u ''A'', poblacion = 10, superficie = 10,
            continente = Some (u ''Asia'')\<rparr>"

definition ej_B :: pais where
  "ej_B = \<lparr>nombre = u ''B'', poblacion = 20, superficie = 30,
            continente = Some (u ''Europa'')\<rparr>"

definition ej_C :: pais where
  "ej_C = \<lparr>nombre = u ''C'', poblacion = 30, superficie = 10,
            continente = Some (u ''Asia'')\<rparr>"

definition ej_estado :: "pais list \<Rightarrow> str list \<Rightarrow> estado" where
  "ej_estado cat lineas =
     \<lparr>catalogo = cat, entrada = lineas, archivo = Some (encabezado # map fila_csv cat),
      escribible = True\<rparr>"

definition ej_alta_peru :: estado where
  "ej_alta_peru = ej_estado [ej_chile] [u ''Peru'', u ''33'', u ''1285'', u ''America'']"


text \<open>A stored file with two rows whose names differ only in case and accent.\<close>

definition ej_archivo_repetido :: estado where
  "ej_archivo_repetido =
     \<lparr>catalogo = [], entrada = [],
      archivo = Some [encabezado,
                      [u ''Per'' @ [250], u ''33'', u ''1285'', u ''America''],
                      [u ''peru'', u ''1'', u ''2'', u ''Asia'']],
      escribible = True\<rparr>"

text \<open>
  A stored file with a row whose continent is empty, a row whose name is empty, a row
  whose population is not made of digits, and a complete row.
\<close>

definition ej_archivo_sin_continente :: estado where
  "ej_archivo_sin_continente =
     \<lparr>catalogo = [], entrada = [],
      archivo = Some [encabezado,
                      [u ''Peru'', u ''33'', u ''1285'', []],
                      [[], u ''1'', u ''2'', u ''Asia''],
                      [u ''Chile'', u ''-19'', u ''756'', u ''America''],
                      [u ''China'', u ''1400'', u ''9597'', u ''Asia'']],
      escribible = True\<rparr>"

section \<open>Strings and search\<close>

lemma str_in_sublist: "str_in x y \<longleftrightarrow> sublist x y"
  by (induction y) (simp_all add: sublist_Cons_right)

lemma dropWhile_idem: "dropWhile P (dropWhile P xs) = dropWhile P xs"
  by (induction xs) simp_all

lemma dropWhile_rev_dropWhile:
  "dropWhile P (rev (dropWhile P (rev (dropWhile P s)))) = rev (dropWhile P (rev (dropWhile P s)))"
proof -
  let ?t = "dropWhile P s"
  let ?r = "dropWhile P (rev ?t)"
  show ?thesis
  proof (cases "?r = []")
    case True
    show ?thesis by (simp only: True rev.simps dropWhile.simps)
  next
    case False
    have "rev ?t = takeWhile P (rev ?t) @ ?r" by simp
    with False have "last ?r = last (rev ?t)" by (metis last_appendR)
    moreover have "?t \<noteq> []"
    proof
      assume "?t = []"
      then have "?r = []" by (simp only: rev.simps dropWhile.simps)
      with False show False by contradiction
    qed
    ultimately have "last ?r = hd ?t" by (simp add: last_rev)
    moreover from \<open>?t \<noteq> []\<close> have "\<not> P (hd ?t)" by (rule hd_dropWhile)
    ultimately have "\<not> P (hd (rev ?r))" using False by (simp add: hd_rev)
    then show ?thesis by (simp add: dropWhile_eq_self_iff)
  qed
qed

lemma strip_idem: "strip L (strip L s) = strip L s"
  unfolding strip_def by (simp add: dropWhile_rev_dropWhile dropWhile_idem)

lemma normalizar_strip: "normalizar L (strip L s) = normalizar L s"
  by (simp add: normalizar_def strip_idem)

lemma normalizar_vacio: "py_lower L [] = [] \<Longrightarrow> py_nfd L [] = [] \<Longrightarrow> normalizar L [] = []"
  by (simp add: normalizar_def strip_def split_def)

lemma buscar_pais_coincide: "buscar_pais L cat q = filter (coincide L q) cat"
  by (simp add: buscar_pais_def coincide_def [abs_def] str_in_sublist)

lemma buscar_pais_refs: "buscar_pais L cat q = map ((!) cat) (buscar_refs L cat q)"
proof -
  have "filter P cat = map ((!) cat) (filter (\<lambda>i. P (cat ! i)) [0 ..< length cat])" for P
  proof -
    have "filter P cat = filter P (map ((!) cat) [0 ..< length cat])"
      by (simp add: map_nth)
    also have "\<dots> = map ((!) cat) (filter (P \<circ> (!) cat) [0 ..< length cat])"
      by (simp only: filter_map)
    finally show ?thesis by (simp add: comp_def)
  qed
  then show ?thesis by (simp add: buscar_pais_def buscar_refs_def Let_def)
qed

section \<open>Evaluation with the concrete library\<close>

lemma py_latin1_sel:
  "py_isspace py_latin1 = isspace_latin1"
  "py_lower py_latin1 = map lower_latin1"
  "py_nfd py_latin1 = nfd_latin1"
  "py_category_Mn py_latin1 = category_Mn_latin1"
  "py_isdigit py_latin1 = isdigit_latin1"
  "py_int py_latin1 = int_latin1"
  by (simp_all add: py_latin1_def)

lemma descomponer_latin1_base: "c < 192 \<Longrightarrow> descomponer_latin1 c = [c]"
  by (simp add: descomponer_latin1_def descomposicion_latin1_def)

lemma descomponer_latin1_250: "descomponer_latin1 250 = [117, 769]"
  by (simp add: descomponer_latin1_def descomposicion_latin1_def)

lemmas latin1_norm =
  normalizar_def py_latin1_sel strip_def split_def isspace_latin1_def lower_latin1_def
  nfd_latin1_def category_Mn_latin1_def descomponer_latin1_base descomponer_latin1_250 u_def

lemmas latin1_eval =
  py_latin1_sel strip_def isspace_latin1_def espacio_int_latin1_def isdigit_latin1_def
  int_latin1_def valor_decimal_def input_def Let_def u_def

lemma norm_vacio: "normalizar py_latin1 [] = []"
  by (simp add: latin1_norm)

lemma norm_chile: "normalizar py_latin1 (u ''Chile'') = u ''chile''"
  by (simp add: latin1_norm)

lemma norm_peru: "normalizar py_latin1 (u ''Per'' @ [250]) = u ''peru''"
  by (simp add: latin1_norm)

lemma norm_china: "normalizar py_latin1 (u ''China'') = u ''china''"
  by (simp add: latin1_norm)

lemma norm_CHI: "normalizar py_latin1 (u '' CHI'') = u ''chi''"
  by (simp add: latin1_norm)

lemma norm_u_acento: "normalizar py_latin1 [250] = u ''u''"
  by (simp add: latin1_norm)

lemma norm_India: "normalizar py_latin1 (u ''India'') = u ''india''"
  by (simp add: latin1_norm)

lemma norm_Indiana: "normalizar py_latin1 (u ''Indiana'') = u ''indiana''"
  by (simp add: latin1_norm)

lemma norm_india: "normalizar py_latin1 (u ''india'') = u ''india''"
  by (simp add: latin1_norm)

lemma norm_Niger: "normalizar py_latin1 (u ''Niger'') = u ''niger''"
  by (simp add: latin1_norm)

lemma norm_Nigeria: "normalizar py_latin1 (u ''Nigeria'') = u ''nigeria''"
  by (simp add: latin1_norm)

lemma norm_peru_sin_acento: "normalizar py_latin1 (u ''peru'') = u ''peru''"
  by (simp add: latin1_norm)

lemma norm_Chi: "normalizar py_latin1 (u ''Chi'') = u ''chi''"
  by (simp add: latin1_norm)

lemma norm_Peru: "normalizar py_latin1 (u ''Peru'') = u ''peru''"
  by (simp add: latin1_norm)

lemmas norm_ejemplos =
  norm_vacio
  norm_chile [unfolded u_def, simplified]
  norm_peru [unfolded u_def, simplified]
  norm_china [unfolded u_def, simplified]
  norm_CHI [unfolded u_def, simplified]
  norm_u_acento [unfolded u_def, simplified]
  norm_India [unfolded u_def, simplified]
  norm_Indiana [unfolded u_def, simplified]
  norm_india [unfolded u_def, simplified]
  norm_Niger [unfolded u_def, simplified]
  norm_Nigeria [unfolded u_def, simplified]
  norm_peru_sin_acento [unfolded u_def, simplified]
  norm_Chi [unfolded u_def, simplified]
  norm_Peru [unfolded u_def, simplified]

lemma strip_sin_blancos:
  "strip py_latin1 (u ''Niger'') = u ''Niger''"
  "strip py_latin1 (u ''peru'') = u ''peru''"
  "strip py_latin1 (u ''Chi'') = u ''Chi''"
  by (simp_all add: latin1_eval)

lemma coincide_str_in:
  "coincide L q p \<longleftrightarrow> str_in (normalizar L q) (normalizar L (nombre p))"
  by (simp add: coincide_def str_in_sublist)

lemmas ej_defs = ej_chile_def ej_peru_def ej_china_def ej_estado_def

text \<open>
  C8. For every catalogue and every query, \<^verbatim>\<open>buscar_pais\<close> returns exactly the records whose
  normalized name contains the normalized query as a substring, in catalogue order
  (it is the catalogue filtered by that test). The search of the menu changes neither
  the catalogue nor the file. The empty query returns the whole catalogue in its
  order, for every library whose \<^verbatim>\<open>lower\<close> and NFD map the empty string to itself.
\<close>

theorem buscar_pais_exacto:
  "buscar_pais L cat q = filter (\<lambda>p. sublist (normalizar L q) (normalizar L (nombre p))) cat
   \<and> (py_lower L [] = [] \<and> py_nfd L [] = [] \<longrightarrow> buscar_pais L cat [] = cat)
   \<and> catalogo (snd (menu_buscar L s)) = catalogo s
   \<and> archivo (snd (menu_buscar L s)) = archivo s
   \<and> (entrada s = q # resto \<longrightarrow> fst (menu_buscar L s) = Inr (buscar_pais L (catalogo s) q))"
  by (auto simp: buscar_pais_def str_in_sublist normalizar_vacio menu_buscar_def input_def
           split: list.splits)

theorem buscar_pais_exacto_witness:
  "buscar_pais py_latin1 [ej_chile, ej_peru, ej_china] (u '' CHI'') = [ej_chile, ej_china]
   \<and> buscar_pais py_latin1 [ej_chile, ej_peru, ej_china] [] = [ej_chile, ej_peru, ej_china]
   \<and> fst (menu_buscar py_latin1 (ej_estado [ej_chile, ej_peru, ej_china] [[250]]))
       = Inr [ej_peru]"
proof -
  let ?cat = "[ej_chile, ej_peru, ej_china]"
  note t = buscar_pais_exacto [of py_latin1 ?cat _ "ej_estado ?cat [[250]]" "[]"]
  have vacio: "py_lower py_latin1 [] = [] \<and> py_nfd py_latin1 [] = []"
    by (simp add: py_latin1_sel nfd_latin1_def)
  have "buscar_pais py_latin1 ?cat (u '' CHI'') = [ej_chile, ej_china]"
    by (simp add: buscar_pais_def Let_def ej_defs u_def norm_ejemplos)
  moreover from t [of "[]"] vacio have "buscar_pais py_latin1 ?cat [] = ?cat"
    by blast
  moreover have "entrada (ej_estado ?cat [[250]]) = [250] # []"
    by (simp add: ej_estado_def)
  with t [of "[250]"] have "fst (menu_buscar py_latin1 (ej_estado ?cat [[250]]))
      = Inr (buscar_pais py_latin1 (catalogo (ej_estado ?cat [[250]])) [250])"
    by blast
  moreover have "buscar_pais py_latin1 (catalogo (ej_estado ?cat [[250]])) [250] = [ej_peru]"
    by (simp add: buscar_pais_def Let_def ej_defs u_def norm_ejemplos)
  ultimately show ?thesis by simp
qed

section \<open>Sorting by area\<close>

lemma sorted_py_mset: "mset (sorted_py key r xs) = mset xs"
  by (simp add: sorted_py_def)

lemma sorted_py_estable:
  "filter (\<lambda>y. key y = k) (sorted_py key r xs) = filter (\<lambda>y. key y = k) xs"
proof (cases r)
  case True
  have "filter (\<lambda>y. key y = k) (rev (sort_key key (rev xs)))
        = rev (filter (\<lambda>y. key y = k) (sort_key key (rev xs)))"
    by (simp only: rev_filter)
  also have "\<dots> = rev (filter (\<lambda>y. key y = k) (rev xs))"
    by (simp only: sort_key_stable)
  also have "\<dots> = filter (\<lambda>y. key y = k) xs"
    by (simp add: rev_filter)
  finally show ?thesis using True by (simp add: sorted_py_def)
next
  case False
  then show ?thesis by (simp add: sorted_py_def sort_key_stable)
qed

lemma sorted_py_orden:
  "sorted (map key (if r then rev (sorted_py key r xs) else sorted_py key r xs))"
  by (simp add: sorted_py_def)

text \<open>
  C6. \<^verbatim>\<open>ordenar_por_superficie\<close> is a stable sort by area in the direction chosen by the
  caller: the result is a rearrangement of the catalogue, its areas ascend when
  \<^verbatim>\<open>asc\<close> is true and descend otherwise, and for every area \<open>k\<close> the records of area
  \<open>k\<close> appear in the result in the order they have in the catalogue, in both
  directions. On the catalogue A (area 10), B (area 30), C (area 10) the descending
  result is B, A, C and the ascending one A, C, B.
\<close>

theorem ordenar_por_superficie_estable:
  "mset (ordenar_por_superficie cat asc) = mset cat
   \<and> sorted (map superficie (if asc then ordenar_por_superficie cat asc
                               else rev (ordenar_por_superficie cat asc)))
   \<and> filter (\<lambda>p. superficie p = k) (ordenar_por_superficie cat asc)
       = filter (\<lambda>p. superficie p = k) cat
   \<and> ordenar_por_superficie [ej_A, ej_B, ej_C] False = [ej_B, ej_A, ej_C]
   \<and> ordenar_por_superficie [ej_A, ej_B, ej_C] True = [ej_A, ej_C, ej_B]"
proof -
  have cs: "clave_superficie = superficie"
    by (rule ext) (simp add: clave_superficie_def)
  have "mset (ordenar_por_superficie cat asc) = mset cat"
    by (simp add: ordenar_por_superficie_def sorted_py_mset)
  moreover have "sorted (map superficie (if asc then ordenar_por_superficie cat asc
                               else rev (ordenar_por_superficie cat asc)))"
    using sorted_py_orden [of superficie "\<not> asc" cat]
    by (cases asc) (simp_all add: ordenar_por_superficie_def cs)
  moreover have "filter (\<lambda>p. superficie p = k) (ordenar_por_superficie cat asc)
       = filter (\<lambda>p. superficie p = k) cat"
    by (simp add: ordenar_por_superficie_def cs sorted_py_estable)
  moreover have "ordenar_por_superficie [ej_A, ej_B, ej_C] False = [ej_B, ej_A, ej_C]"
    by (simp add: ordenar_por_superficie_def sorted_py_def cs ej_A_def ej_B_def ej_C_def)
  moreover have "ordenar_por_superficie [ej_A, ej_B, ej_C] True = [ej_A, ej_C, ej_B]"
    by (simp add: ordenar_por_superficie_def sorted_py_def cs ej_A_def ej_B_def ej_C_def)
  ultimately show ?thesis by blast
qed

theorem ordenar_por_superficie_estable_witness:
  "filter (\<lambda>p. superficie p = 10) (ordenar_por_superficie [ej_A, ej_B, ej_C] False)
     = [ej_A, ej_C]
   \<and> ordenar_por_superficie [ej_A, ej_B, ej_C] False = [ej_B, ej_A, ej_C]"
  using ordenar_por_superficie_estable [of "[ej_A, ej_B, ej_C]" False 10]
  by (simp add: ej_A_def ej_B_def ej_C_def)

section \<open>Filters by range\<close>

text \<open>
  C9. \<^verbatim>\<open>filtrar_poblacion\<close> and \<^verbatim>\<open>filtrar_superficie\<close> keep exactly the records whose
  value lies between the two bounds read, both bounds included, in catalogue order; when
  the minimum read is greater than the maximum the result is the empty list and no
  exception is raised. The bounds are the integers \<^verbatim>\<open>int\<close> makes of the two lines read.
  Neither filter changes the catalogue or the file.
\<close>

theorem filtrar_rango_inclusivo:
  assumes "entrada s = l1 # l2 # resto"
    and "py_int L l1 = Some minimo" and "py_int L l2 = Some maximo"
  shows "fst (filtrar_poblacion L s)
           = Inr (filter (\<lambda>p. minimo \<le> poblacion p \<and> poblacion p \<le> maximo) (catalogo s))
       \<and> fst (filtrar_superficie L s)
           = Inr (filter (\<lambda>p. minimo \<le> superficie p \<and> superficie p \<le> maximo) (catalogo s))
       \<and> (maximo < minimo \<longrightarrow>
            fst (filtrar_poblacion L s) = Inr [] \<and> fst (filtrar_superficie L s) = Inr [])
       \<and> snd (filtrar_poblacion L s) = s\<lparr>entrada := resto\<rparr>
       \<and> snd (filtrar_superficie L s) = s\<lparr>entrada := resto\<rparr>"
proof -
  have "\<not> (minimo \<le> x \<and> x \<le> maximo)" if "maximo < minimo" for x :: int
    using that by linarith
  then have vacio: "maximo < minimo \<Longrightarrow> filter (\<lambda>p. minimo \<le> f p \<and> f p \<le> maximo) xs = []"
    for f :: "pais \<Rightarrow> int" and xs
    by simp
  show ?thesis
    using assms vacio
    by (simp add: filtrar_poblacion_def filtrar_superficie_def input_def)
qed

theorem filtrar_rango_inclusivo_witness:
  "fst (filtrar_poblacion py_latin1 (ej_estado [ej_A, ej_B, ej_C] [u ''10'', u ''20'']))
     = Inr [ej_A, ej_B]
   \<and> fst (filtrar_superficie py_latin1 (ej_estado [ej_A, ej_B, ej_C] [u ''10'', u ''30'']))
     = Inr [ej_A, ej_B, ej_C]
   \<and> fst (filtrar_poblacion py_latin1 (ej_estado [ej_A, ej_B, ej_C] [u ''100'', u ''50'']))
     = Inr []
   \<and> fst (filtrar_superficie py_latin1 (ej_estado [ej_A, ej_B, ej_C] [u ''100'', u ''50'']))
     = Inr []"
proof -
  let ?cat = "[ej_A, ej_B, ej_C]"
  have e: "entrada (ej_estado ?cat [a, b]) = a # b # []" for a b
    by (simp add: ej_estado_def)
  have c: "catalogo (ej_estado ?cat ls) = ?cat" for ls
    by (simp add: ej_estado_def)
  have i10: "py_int py_latin1 (u ''10'') = Some 10" by (simp add: latin1_eval)
  have i20: "py_int py_latin1 (u ''20'') = Some 20" by (simp add: latin1_eval)
  have i30: "py_int py_latin1 (u ''30'') = Some 30" by (simp add: latin1_eval)
  have i50: "py_int py_latin1 (u ''50'') = Some 50" by (simp add: latin1_eval)
  have i100: "py_int py_latin1 (u ''100'') = Some 100" by (simp add: latin1_eval)
  have f1: "filter (\<lambda>p. 10 \<le> poblacion p \<and> poblacion p \<le> 20) ?cat = [ej_A, ej_B]"
    by (simp add: ej_A_def ej_B_def ej_C_def)
  have f2: "filter (\<lambda>p. 10 \<le> superficie p \<and> superficie p \<le> 30) ?cat = ?cat"
    by (simp add: ej_A_def ej_B_def ej_C_def)
  have "fst (filtrar_poblacion py_latin1 (ej_estado ?cat [u ''10'', u ''20'']))
          = Inr (filter (\<lambda>p. 10 \<le> poblacion p \<and> poblacion p \<le> 20)
                   (catalogo (ej_estado ?cat [u ''10'', u ''20''])))"
    using filtrar_rango_inclusivo [OF e i10 i20] by blast
  then have "fst (filtrar_poblacion py_latin1 (ej_estado ?cat [u ''10'', u ''20'']))
          = Inr [ej_A, ej_B]"
    by (simp only: c f1)
  moreover have "fst (filtrar_superficie py_latin1 (ej_estado ?cat [u ''10'', u ''30'']))
          = Inr (filter (\<lambda>p. 10 \<le> superficie p \<and> superficie p \<le> 30)
                   (catalogo (ej_estado ?cat [u ''10'', u ''30''])))"
    using filtrar_rango_inclusivo [OF e i10 i30] by blast
  then have "fst (filtrar_superficie py_latin1 (ej_estado ?cat [u ''10'', u ''30'']))
          = Inr ?cat"
    by (simp only: c f2)
  moreover have "fst (filtrar_poblacion py_latin1 (ej_estado ?cat [u ''100'', u ''50''])) = Inr []
      \<and> fst (filtrar_superficie py_latin1 (ej_estado ?cat [u ''100'', u ''50''])) = Inr []"
    using filtrar_rango_inclusivo [OF e i100 i50] by simp
  ultimately show ?thesis by simp
qed

section \<open>Statistics\<close>




text \<open>
  Ties: with populations 10, 30, 30, 10 the greatest is taken from the second record and
  the smallest from the first.
\<close>

lemma estadisticas_empates:
  "\<exists>e. estadisticas [ej_A, ej_C, ej_B\<lparr>poblacion := 30\<rparr>, ej_C\<lparr>poblacion := 10\<rparr>] = Inr e
       \<and> mayor e = ej_C \<and> menor e = ej_A"
  by (simp add: estadisticas_def clave_poblacion_def ej_A_def ej_B_def ej_C_def)



section \<open>Update\<close>

lemma buscar_refs_coincide:
  "buscar_refs L cat q = filter (\<lambda>i. coincide L q (cat ! i)) [0 ..< length cat]"
  by (simp add: buscar_refs_def coincide_def str_in_sublist)

lemma buscar_refs_vacio:
  "buscar_refs L cat q = [] \<longleftrightarrow> (\<forall>p\<in>set cat. \<not> coincide L q p)"
proof -
  have "buscar_refs L cat q = [] \<longleftrightarrow> buscar_pais L cat q = []"
    by (simp add: buscar_pais_refs)
  then show ?thesis by (simp add: buscar_pais_coincide filter_empty_conv)
qed

lemma buscar_refs_primero:
  assumes "cat = pre @ p # post" and "\<forall>r\<in>set pre. \<not> coincide L q r" and "coincide L q p"
  shows "\<exists>is. buscar_refs L cat q = length pre # is"
proof -
  have "[0 ..< length cat]
        = [0 ..< length pre] @ length pre # [Suc (length pre) ..< length cat]"
  proof -
    have n: "length cat = length pre + Suc (length post)" using assms(1) by simp
    have "[0 ..< length pre + Suc (length post)]
          = [0 ..< length pre] @ [length pre ..< length pre + Suc (length post)]"
      by (rule upt_add_eq_append) simp
    moreover have "[length pre ..< length pre + Suc (length post)]
          = length pre # [Suc (length pre) ..< length pre + Suc (length post)]"
      by (rule upt_conv_Cons) simp
    ultimately show ?thesis by (simp only: n)
  qed
  moreover have "filter (\<lambda>i. coincide L q (cat ! i)) [0 ..< length pre] = []"
    using assms(1,2) by (auto simp: filter_empty_conv nth_append)
  moreover have "coincide L q (cat ! length pre)"
    using assms(1,3) by simp
  ultimately show ?thesis by (simp add: buscar_refs_coincide)
qed

text \<open>
  C5. \<^verbatim>\<open>actualizar_pais\<close> prints "No encontrado." exactly when no record of the catalogue
  has a normalized name that contains the normalized query, and then changes nothing but
  the input read. Otherwise its target is the first record, in catalogue order, whose
  normalized name contains the normalized query: with valid new values and a writable
  file, that record, and no other, gets the new population and area. With the records
  India and Indiana and the query "india", the record updated is the one that stands
  first in the catalogue, whichever that is.
\<close>

theorem actualizar_pais_primer_coincidente:
  assumes "entrada s = q # resto"
  shows "(fst (actualizar_pais L s) = Inr No_encontrado
            \<longleftrightarrow> (\<forall>p\<in>set (catalogo s). \<not> coincide L q p))
       \<and> ((\<forall>p\<in>set (catalogo s). \<not> coincide L q p)
            \<longrightarrow> snd (actualizar_pais L s) = s\<lparr>entrada := resto\<rparr>)
       \<and> (\<forall>pre p post pob_txt sup_txt resto' pob supe.
            catalogo s = pre @ p # post
            \<and> (\<forall>r\<in>set pre. \<not> coincide L q r) \<and> coincide L q p
            \<and> resto = pob_txt # sup_txt # resto'
            \<and> py_isdigit L pob_txt \<and> py_isdigit L sup_txt
            \<and> py_int L pob_txt = Some pob \<and> py_int L sup_txt = Some supe
            \<and> escribible s
            \<longrightarrow> fst (actualizar_pais L s) = Inr Datos_actualizados
              \<and> catalogo (snd (actualizar_pais L s))
                  = pre @ p\<lparr>poblacion := pob, superficie := supe\<rparr> # post)"
proof -
  have a: "fst (actualizar_pais L s) = Inr No_encontrado
            \<longleftrightarrow> (\<forall>p\<in>set (catalogo s). \<not> coincide L q p)"
  proof (cases "buscar_refs L (catalogo s) q")
    case Nil
    with assms show ?thesis
      using buscar_refs_vacio [of L "catalogo s" q]
      by (simp add: actualizar_pais_def input_def)
  next
    case (Cons i "is")
    then have "\<not> (\<forall>p\<in>set (catalogo s). \<not> coincide L q p)"
      using buscar_refs_vacio [of L "catalogo s" q] by simp
    moreover from Cons assms have "fst (actualizar_pais L s) \<noteq> Inr No_encontrado"
      by (simp add: actualizar_pais_def input_def Let_def guardar_archivo_def
               split: list.splits option.splits)
    ultimately show ?thesis by simp
  qed
  have b: "snd (actualizar_pais L s) = s\<lparr>entrada := resto\<rparr>"
    if "\<forall>p\<in>set (catalogo s). \<not> coincide L q p"
    using that assms buscar_refs_vacio [of L "catalogo s" q]
    by (simp add: actualizar_pais_def input_def)
  have c: "fst (actualizar_pais L s) = Inr Datos_actualizados
              \<and> catalogo (snd (actualizar_pais L s))
                  = pre @ p\<lparr>poblacion := pob, superficie := supe\<rparr> # post"
    if h: "catalogo s = pre @ p # post" "\<forall>r\<in>set pre. \<not> coincide L q r" "coincide L q p"
      "resto = pob_txt # sup_txt # resto'" "py_isdigit L pob_txt" "py_isdigit L sup_txt"
      "py_int L pob_txt = Some pob" "py_int L sup_txt = Some supe" "escribible s"
    for pre p post pob_txt sup_txt resto' pob supe
  proof -
    from buscar_refs_primero [OF h(1,2,3)] obtain "is" where
      "buscar_refs L (catalogo s) q = length pre # is" by blast
    with assms h show ?thesis
      by (simp add: actualizar_pais_def input_def Let_def guardar_archivo_def)
  qed
  from a b c show ?thesis by blast
qed

theorem actualizar_pais_primer_coincidente_witness:
  "fst (actualizar_pais py_latin1
          (ej_estado [ej_india, ej_indiana] [u ''india'', u ''1500'', u ''3300'']))
     = Inr Datos_actualizados
   \<and> catalogo (snd (actualizar_pais py_latin1
          (ej_estado [ej_india, ej_indiana] [u ''india'', u ''1500'', u ''3300''])))
     = [ej_india\<lparr>poblacion := 1500, superficie := 3300\<rparr>, ej_indiana]
   \<and> catalogo (snd (actualizar_pais py_latin1
          (ej_estado [ej_indiana, ej_india] [u ''india'', u ''1500'', u ''3300''])))
     = [ej_indiana\<lparr>poblacion := 1500, superficie := 3300\<rparr>, ej_india]
   \<and> fst (actualizar_pais py_latin1 (ej_estado [ej_india, ej_indiana] [u ''Chile'']))
     = Inr No_encontrado"
proof -
  let ?ls = "[u ''india'', u ''1500'', u ''3300'']"
  have d: "py_isdigit py_latin1 (u ''1500'')" "py_isdigit py_latin1 (u ''3300'')"
    "py_int py_latin1 (u ''1500'') = Some 1500" "py_int py_latin1 (u ''3300'') = Some 3300"
    by (simp_all add: latin1_eval)
  have m: "coincide py_latin1 (u ''india'') ej_india"
    "coincide py_latin1 (u ''india'') ej_indiana"
    by (simp_all add: coincide_str_in ej_india_def ej_indiana_def u_def norm_ejemplos)
  have n: "\<not> coincide py_latin1 (u ''Chile'') ej_india"
    "\<not> coincide py_latin1 (u ''Chile'') ej_indiana"
    by (simp_all add: coincide_str_in ej_india_def ej_indiana_def u_def norm_ejemplos)
  have e: "entrada (ej_estado cat (l # ls)) = l # ls" "catalogo (ej_estado cat ls) = cat"
    "escribible (ej_estado cat ls)" for cat l ls
    by (simp_all add: ej_estado_def)
  note t1 = actualizar_pais_primer_coincidente
              [of "ej_estado [ej_india, ej_indiana] ?ls" _ _ py_latin1, OF e(1)]
  note t2 = actualizar_pais_primer_coincidente
              [of "ej_estado [ej_indiana, ej_india] ?ls" _ _ py_latin1, OF e(1)]
  note t3 = actualizar_pais_primer_coincidente
              [of "ej_estado [ej_india, ej_indiana] [u ''Chile'']" _ _ py_latin1, OF e(1)]
  have "catalogo (ej_estado [ej_india, ej_indiana] ?ls) = [] @ ej_india # [ej_indiana]"
    by (simp add: e)
  with t1 d m e(3) have
    "fst (actualizar_pais py_latin1 (ej_estado [ej_india, ej_indiana] ?ls))
       = Inr Datos_actualizados
     \<and> catalogo (snd (actualizar_pais py_latin1 (ej_estado [ej_india, ej_indiana] ?ls)))
       = [] @ ej_india\<lparr>poblacion := 1500, superficie := 3300\<rparr> # [ej_indiana]"
    by (metis empty_iff list.set(1))
  moreover
  have "catalogo (ej_estado [ej_indiana, ej_india] ?ls) = [] @ ej_indiana # [ej_india]"
    by (simp add: e)
  with t2 d m e(3) have
    "fst (actualizar_pais py_latin1 (ej_estado [ej_indiana, ej_india] ?ls))
       = Inr Datos_actualizados
     \<and> catalogo (snd (actualizar_pais py_latin1 (ej_estado [ej_indiana, ej_india] ?ls)))
       = [] @ ej_indiana\<lparr>poblacion := 1500, superficie := 3300\<rparr> # [ej_india]"
    by (metis empty_iff list.set(1))
  moreover from t3 n
  have "fst (actualizar_pais py_latin1 (ej_estado [ej_india, ej_indiana] [u ''Chile'']))
     = Inr No_encontrado"
    by (simp add: e)
  ultimately show ?thesis by simp
qed

section \<open>Add: the duplicate check\<close>

lemma coincide_strip: "coincide L (strip L l) p \<longleftrightarrow> coincide L l p"
  by (simp add: coincide_def normalizar_strip)

lemma buscar_pais_vacio:
  "buscar_pais L cat q = [] \<longleftrightarrow> (\<forall>p\<in>set cat. \<not> coincide L q p)"
  by (simp add: buscar_pais_coincide filter_empty_conv)

lemma agregar_pais_nombre_vacio:
  "entrada s = l # resto \<Longrightarrow> strip L l = [] \<Longrightarrow>
     agregar_pais L s = (Inr Nombre_vacio, s\<lparr>entrada := resto\<rparr>)"
  by (simp add: agregar_pais_def input_def)

lemma agregar_pais_ya_existe:
  "entrada s = l # resto \<Longrightarrow> strip L l \<noteq> [] \<Longrightarrow> p \<in> set (catalogo s) \<Longrightarrow>
   coincide L l p \<Longrightarrow>
     agregar_pais L s = (Inr Pais_ya_existe, s\<lparr>entrada := resto\<rparr>)"
  using buscar_pais_vacio [of L "catalogo s" "strip L l"]
  by (auto simp: agregar_pais_def input_def Let_def coincide_strip)

lemma agregar_pais_sin_coincidencia:
  assumes "entrada s = l # resto" and "\<forall>p\<in>set (catalogo s). \<not> coincide L l p"
  shows "fst (agregar_pais L s) \<noteq> Inr Pais_ya_existe"
proof -
  from assms(2) have "buscar_pais L (catalogo s) (strip L l) = []"
    by (simp add: buscar_pais_vacio coincide_strip)
  with assms(1) show ?thesis
    by (simp add: agregar_pais_def input_def Let_def guardar_archivo_def
             split: list.splits option.splits)
qed

text \<open>
  C1, as the code has it. For a new name that is not empty after trimming,
  \<^verbatim>\<open>agregar_pais\<close> prints "El pais ya existe." if and only if the normalized new name is
  a substring of the normalized name of some record of the catalogue: the duplicate
  check is the partial-match search \<^verbatim>\<open>buscar_pais\<close>, not an equality of normalized
  names. A name that differs from an existing one only in case or accents is
  rejected; so is a name whose normalization equals no existing one but occurs inside
  one (Niger when Nigeria exists).
\<close>

theorem agregar_pais_duplicado_por_subcadena:
  assumes "entrada s = l # resto" and "strip L l \<noteq> []"
  shows "fst (agregar_pais L s) = Inr Pais_ya_existe
         \<longleftrightarrow> (\<exists>p\<in>set (catalogo s). sublist (normalizar L l) (normalizar L (nombre p)))"
proof
  assume "fst (agregar_pais L s) = Inr Pais_ya_existe"
  with agregar_pais_sin_coincidencia [OF assms(1), of L]
  show "\<exists>p\<in>set (catalogo s). sublist (normalizar L l) (normalizar L (nombre p))"
    by (auto simp: coincide_def)
next
  assume "\<exists>p\<in>set (catalogo s). sublist (normalizar L l) (normalizar L (nombre p))"
  then obtain p where "p \<in> set (catalogo s)" "coincide L l p"
    by (auto simp: coincide_def)
  with agregar_pais_ya_existe [OF assms] show "fst (agregar_pais L s) = Inr Pais_ya_existe"
    by simp
qed

theorem agregar_pais_duplicado_por_subcadena_witness:
  "fst (agregar_pais py_latin1
          (ej_estado [ej_nigeria] [u ''Niger'', u ''27'', u ''1267'', u ''Africa'']))
     = Inr Pais_ya_existe
   \<and> normalizar py_latin1 (u ''Niger'') \<noteq> normalizar py_latin1 (nombre ej_nigeria)
   \<and> fst (agregar_pais py_latin1
          (ej_estado [ej_peru] [u ''peru'', u ''33'', u ''1285'', u ''America'']))
     = Inr Pais_ya_existe
   \<and> normalizar py_latin1 (u ''peru'') = normalizar py_latin1 (nombre ej_peru)"
proof -
  have e: "entrada (ej_estado cat (l # ls)) = l # ls" "catalogo (ej_estado cat ls) = cat"
    for cat l ls
    by (simp_all add: ej_estado_def)
  have n1: "strip py_latin1 (u ''Niger'') \<noteq> []" "strip py_latin1 (u ''peru'') \<noteq> []"
    by (simp_all add: strip_sin_blancos) (simp_all add: u_def)
  have s1: "sublist (normalizar py_latin1 (u ''Niger'')) (normalizar py_latin1 (nombre ej_nigeria))"
    by (simp add: str_in_sublist [symmetric] ej_nigeria_def u_def norm_ejemplos)
  have s2: "sublist (normalizar py_latin1 (u ''peru'')) (normalizar py_latin1 (nombre ej_peru))"
    by (simp add: str_in_sublist [symmetric] ej_peru_def u_def norm_ejemplos)
  from agregar_pais_duplicado_por_subcadena [OF e(1) n1(1), of "[ej_nigeria]"] s1
  have "fst (agregar_pais py_latin1
          (ej_estado [ej_nigeria] [u ''Niger'', u ''27'', u ''1267'', u ''Africa'']))
     = Inr Pais_ya_existe"
    by (simp add: e)
  moreover
  from agregar_pais_duplicado_por_subcadena [OF e(1) n1(2), of "[ej_peru]"] s2
  have "fst (agregar_pais py_latin1
          (ej_estado [ej_peru] [u ''peru'', u ''33'', u ''1285'', u ''America'']))
     = Inr Pais_ya_existe"
    by (simp add: e)
  moreover
  have "normalizar py_latin1 (u ''Niger'') \<noteq> normalizar py_latin1 (nombre ej_nigeria)"
    by (simp add: ej_nigeria_def u_def norm_ejemplos)
  moreover
  have "normalizar py_latin1 (u ''peru'') = normalizar py_latin1 (nombre ej_peru)"
    by (simp add: ej_peru_def u_def norm_ejemplos)
  ultimately show ?thesis by blast
qed




section \<open>Mutations and the file\<close>






lemma agregar_pais_resultados:
  "fst (agregar_pais L s) \<in> {Inr Nombre_vacio, Inr Pais_ya_existe, Inr Datos_invalidos,
      Inr Pais_agregado, Inl EOFError, Inl ValueError, Inl OSError}"
  by (auto simp: agregar_pais_def input_def Let_def guardar_archivo_def
           split: list.splits option.splits if_splits)

lemma actualizar_pais_resultados:
  "fst (actualizar_pais L s) \<in> {Inr No_encontrado, Inr Valores_invalidos,
      Inr Datos_actualizados, Inl EOFError, Inl ValueError, Inl OSError}"
  by (auto simp: actualizar_pais_def input_def Let_def guardar_archivo_def
           split: list.splits option.splits if_splits)

lemma fila_csv_ej_chile:
  "fila_csv ej_chile = [u ''Chile'', u ''19'', u ''756'', u ''America'']"
  by (simp add: fila_csv_def ej_chile_def str_int_def str_nat.simps u_def)









section \<open>Uniqueness of normalized names\<close>

lemma agregar_pais_catalogo:
  "catalogo (snd (agregar_pais L s)) = catalogo s
   \<or> (\<exists>l resto pob supe cont.
         entrada s = l # resto \<and> strip L l \<noteq> []
         \<and> buscar_pais L (catalogo s) (strip L l) = []
         \<and> catalogo (snd (agregar_pais L s))
             = catalogo s @ [\<lparr>nombre = strip L l, poblacion = pob, superficie = supe,
                                continente = Some cont\<rparr>])"
  by (auto simp: agregar_pais_def input_def Let_def guardar_archivo_def
           split: list.splits option.splits if_splits)

lemma agregar_pais_sin_duplicados:
  assumes "sin_duplicados L (catalogo s)"
  shows "sin_duplicados L (catalogo (snd (agregar_pais L s)))"
proof -
  from agregar_pais_catalogo [of L s] show ?thesis
  proof
    assume "catalogo (snd (agregar_pais L s)) = catalogo s"
    with assms show ?thesis by simp
  next
    assume "\<exists>l resto pob supe cont.
         entrada s = l # resto \<and> strip L l \<noteq> []
         \<and> buscar_pais L (catalogo s) (strip L l) = []
         \<and> catalogo (snd (agregar_pais L s))
             = catalogo s @ [\<lparr>nombre = strip L l, poblacion = pob, superficie = supe,
                                continente = Some cont\<rparr>]"
    then obtain l pob supe cont where
      b: "buscar_pais L (catalogo s) (strip L l) = []"
      and c: "catalogo (snd (agregar_pais L s))
             = catalogo s @ [\<lparr>nombre = strip L l, poblacion = pob, superficie = supe,
                                continente = Some cont\<rparr>]"
      by blast
    from b have "\<forall>p\<in>set (catalogo s). \<not> coincide L (strip L l) p"
      by (simp add: buscar_pais_vacio)
    then have "\<forall>p\<in>set (catalogo s). normalizar L (nombre p) \<noteq> normalizar L (strip L l)"
      by (auto simp: coincide_def)
    with assms c show ?thesis
      by (auto simp: sin_duplicados_def)
  qed
qed

lemma nombres_tras_escritura:
  assumes "nombre y = nombre (xs ! i)"
  shows "map nombre (xs[i := y]) = map nombre xs"
proof -
  have "map nombre (xs[i := y]) = (map nombre xs)[i := nombre (xs ! i)]"
    using assms by (simp add: map_update)
  also have "\<dots> = map nombre (xs[i := xs ! i])" by (simp only: map_update)
  finally show ?thesis by simp
qed

lemma nombre_tras_poblacion:
  "nombre (xs[i := (xs ! i)\<lparr>poblacion := a\<rparr>] ! i) = nombre (xs ! i)"
  by (cases "i < length xs") (simp_all add: list_update_beyond)

lemma actualizar_pais_nombres:
  "map nombre (catalogo (snd (actualizar_pais L s))) = map nombre (catalogo s)"
  by (simp add: actualizar_pais_def input_def Let_def guardar_archivo_def
        nombres_tras_escritura nombre_tras_poblacion split: list.splits option.splits)

lemma sin_duplicados_nombres:
  "sin_duplicados L cat \<longleftrightarrow> distinct (map (normalizar L) (map nombre cat))"
  by (simp add: sin_duplicados_def comp_def)

lemma actualizar_pais_sin_duplicados:
  "sin_duplicados L (catalogo s) \<Longrightarrow> sin_duplicados L (catalogo (snd (actualizar_pais L s)))"
  by (simp add: sin_duplicados_nombres actualizar_pais_nombres)

lemma leer_ej_archivo_repetido:
  "fst (leer_archivo py_latin1 ej_archivo_repetido)
     = Inr [\<lparr>nombre = u ''Per'' @ [250], poblacion = 33, superficie = 1285,
              continente = Some (u ''America'')\<rparr>,
            \<lparr>nombre = u ''peru'', poblacion = 1, superficie = 2,
              continente = Some (u ''Asia'')\<rparr>]"
  by (simp add: leer_archivo_def ej_archivo_repetido_def crear_sino_existe_def encabezado_def
        leer_fila_def fila_dict_def latin1_eval)

text \<open>
  C3, amended. Adds and updates keep the invariant: from a catalogue in which no two
  names have the same normal form (the empty catalogue of a new file is one, and
  \<^verbatim>\<open>leer_archivo\<close> returns it when there is no file yet), every state reached by any
  sequence of adds and updates has a catalogue in which no two names have the same
  normal form. Loading does not establish the invariant: \<^verbatim>\<open>leer_archivo\<close> compares no
  names.
\<close>

theorem sin_duplicados_invariante:
  "(sin_duplicados L (catalogo s) \<and> alcanzable L s t \<longrightarrow> sin_duplicados L (catalogo t))
   \<and> (archivo s = None \<and> escribible s \<longrightarrow> fst (leer_archivo L s) = Inr [])
   \<and> sin_duplicados L []"
proof -
  have "sin_duplicados L (catalogo t)" if "sin_duplicados L (catalogo s)" "alcanzable L s t"
    using that(2,1)
  proof (induction rule: alcanzable.induct)
    case inicio
    then show ?case .
  next
    case alta
    from alta.IH [OF alta.prems] show ?case
      by (intro agregar_pais_sin_duplicados) simp
  next
    case actualizacion
    from actualizacion.IH [OF actualizacion.prems] show ?case
      by (intro actualizar_pais_sin_duplicados) simp
  qed
  moreover have "fst (leer_archivo L s) = Inr []" if "archivo s = None" "escribible s"
    using that by (simp add: leer_archivo_def crear_sino_existe_def)
  ultimately show ?thesis by (auto simp: sin_duplicados_def)
qed

theorem sin_duplicados_invariante_witness:
  "sin_duplicados py_latin1
     (catalogo (snd (agregar_pais py_latin1
        ((snd (agregar_pais py_latin1 ((ej_estado [] [])
            \<lparr>entrada := [u ''Chile'', u ''19'', u ''756'', u ''America''], escribible := True\<rparr>)))
         \<lparr>entrada := [u ''chile'', u ''1'', u ''2'', u ''Asia''], escribible := True\<rparr>))))
   \<and> fst (leer_archivo py_latin1 \<lparr>catalogo = [], entrada = [], archivo = None, escribible = True\<rparr>)
       = Inr []"
proof -
  let ?s = "ej_estado [] []"
  let ?t1 = "snd (agregar_pais py_latin1
              (?s\<lparr>entrada := [u ''Chile'', u ''19'', u ''756'', u ''America''], escribible := True\<rparr>))"
  let ?t2 = "snd (agregar_pais py_latin1
              (?t1\<lparr>entrada := [u ''chile'', u ''1'', u ''2'', u ''Asia''], escribible := True\<rparr>))"
  have "alcanzable py_latin1 ?s ?t1" by (rule alta) (rule inicio)
  then have "alcanzable py_latin1 ?s ?t2" by (rule alta)
  moreover have "sin_duplicados py_latin1 (catalogo ?s)"
    by (simp add: ej_estado_def sin_duplicados_def)
  ultimately have "sin_duplicados py_latin1 (catalogo ?t2)"
    using sin_duplicados_invariante [of py_latin1 ?s ?t2] by blast
  moreover have "fst (leer_archivo py_latin1
       \<lparr>catalogo = [], entrada = [], archivo = None, escribible = True\<rparr>) = Inr []"
    using sin_duplicados_invariante
      [of py_latin1 "\<lparr>catalogo = [], entrada = [], archivo = None, escribible = True\<rparr>"]
    by simp
  ultimately show ?thesis by simp
qed

text \<open>
  C3 as stated fails after loading a stored file that holds two rows whose names
  normalize alike: both are loaded.
\<close>

theorem leer_archivo_duplicados_counterexample:
  "fst (leer_archivo py_latin1 ej_archivo_repetido)
     = Inr [\<lparr>nombre = u ''Per'' @ [250], poblacion = 33, superficie = 1285,
              continente = Some (u ''America'')\<rparr>,
            \<lparr>nombre = u ''peru'', poblacion = 1, superficie = 2,
              continente = Some (u ''Asia'')\<rparr>]
   \<and> normalizar py_latin1 (u ''Per'' @ [250]) = normalizar py_latin1 (u ''peru'')
   \<and> \<not> sin_duplicados py_latin1
         [\<lparr>nombre = u ''Per'' @ [250], poblacion = 33, superficie = 1285,
              continente = Some (u ''America'')\<rparr>,
          \<lparr>nombre = u ''peru'', poblacion = 1, superficie = 2,
              continente = Some (u ''Asia'')\<rparr>]"
  by (simp add: leer_ej_archivo_repetido sin_duplicados_def norm_peru norm_peru_sin_acento)

section \<open>Validity of the records\<close>

lemma formas_de_fila:
  obtains "fila = []" | a where "fila = [a]" | a b where "fila = [a, b]"
  | a b c where "fila = [a, b, c]" | a b c d r where "fila = a # b # c # d # r"
  by (cases fila; cases "tl fila"; cases "tl (tl fila)"; cases "tl (tl (tl fila))") auto

lemma fila_dict_encabezado:
  "fila_dict encabezado fila (u ''nombre'') = Some (campo fila 0)"
  "fila_dict encabezado fila (u ''poblacion'') = Some (campo fila 1)"
  "fila_dict encabezado fila (u ''superficie'') = Some (campo fila 2)"
  "fila_dict encabezado fila (u ''continente'') = Some (campo fila 3)"
  by (cases fila rule: formas_de_fila; simp add: fila_dict_def encabezado_def campo_def u_def)+

lemma leer_fila_digitos:
  assumes "leer_fila L d = Inr (Some p)"
  shows "nombre p \<noteq> []
       \<and> (\<exists>a. py_isdigit L a \<and> py_int L a = Some (poblacion p))
       \<and> (\<exists>b. py_isdigit L b \<and> py_int L b = Some (superficie p))"
  using assms
  by (auto simp: leer_fila_def split: option.splits if_splits)

lemma leer_fila_valido:
  "digitos_no_negativos L \<Longrightarrow> leer_fila L d = Inr (Some p) \<Longrightarrow> valido_carga p"
  using leer_fila_digitos [of L d p]
  by (auto simp: valido_carga_def digitos_no_negativos_def)

lemma leer_filas_validos:
  "digitos_no_negativos L \<Longrightarrow> list_all valido_carga acc \<Longrightarrow>
   leer_filas L campos filas acc = Inr cat \<Longrightarrow> list_all valido_carga cat"
proof (induction filas arbitrary: acc)
  case Nil
  then show ?case by simp
next
  case (Cons fila filas)
  show ?case
  proof (cases "fila = []")
    case True
    with Cons show ?thesis by simp
  next
    case False
    show ?thesis
    proof (cases "leer_fila L (fila_dict campos fila)")
      case (Inl e)
      with False Cons.prems show ?thesis by simp
    next
      case (Inr r)
      show ?thesis
      proof (cases r)
        case None
        with Inr False Cons show ?thesis by simp
      next
        case (Some p)
        with Inr Cons.prems(1) have "valido_carga p" by (simp add: leer_fila_valido)
        with Cons.prems(2) have "list_all valido_carga (acc @ [p])" by simp
        moreover from Some Inr False Cons.prems(3)
        have "leer_filas L campos filas (acc @ [p]) = Inr cat" by simp
        ultimately show ?thesis using Cons.IH Cons.prems(1) by blast
      qed
    qed
  qed
qed

lemma leer_fila_encabezado:
  assumes "fila \<noteq> []"
  shows "leer_fila L (fila_dict encabezado fila) = Inr (Some p)
           \<Longrightarrow> fila_aceptada L fila \<and> registro_de L p fila"
    and "leer_fila L (fila_dict encabezado fila) = Inr None \<Longrightarrow> \<not> fila_aceptada L fila"
  using assms
  by (cases fila rule: formas_de_fila;
      auto simp: leer_fila_def fila_dict_encabezado campo_def fila_aceptada_def registro_de_def
           split: option.splits if_splits)+

lemma leer_filas_aceptadas:
  "leer_filas L encabezado filas acc = Inr cat \<Longrightarrow>
   \<exists>nuevos. cat = acc @ nuevos
     \<and> list_all2 (registro_de L) nuevos (filter (fila_aceptada L) filas)"
proof (induction filas arbitrary: acc)
  case Nil
  then show ?case by simp
next
  case (Cons fila filas)
  show ?case
  proof (cases "fila = []")
    case True
    with Cons show ?thesis by (simp add: fila_aceptada_def)
  next
    case False
    show ?thesis
    proof (cases "leer_fila L (fila_dict encabezado fila)")
      case (Inl e)
      with False Cons.prems show ?thesis by simp
    next
      case (Inr r)
      show ?thesis
      proof (cases r)
        case None
        with Inr leer_fila_encabezado(2) [OF False] have "\<not> fila_aceptada L fila" by simp
        moreover from None Inr False Cons.prems
        have "leer_filas L encabezado filas acc = Inr cat" by simp
        ultimately show ?thesis using Cons.IH by simp
      next
        case (Some p)
        with Inr leer_fila_encabezado(1) [OF False]
        have a: "fila_aceptada L fila" "registro_de L p fila" by simp_all
        from Some Inr False Cons.prems
        have "leer_filas L encabezado filas (acc @ [p]) = Inr cat" by simp
        from Cons.IH [OF this] obtain nuevos where
          "cat = (acc @ [p]) @ nuevos"
          "list_all2 (registro_de L) nuevos (filter (fila_aceptada L) filas)"
          by blast
        with a have "cat = acc @ (p # nuevos)
          \<and> list_all2 (registro_de L) (p # nuevos) (filter (fila_aceptada L) (fila # filas))"
          by simp
        then show ?thesis by blast
      qed
    qed
  qed
qed

lemma agregar_pais_registro_nuevo:
  "catalogo (snd (agregar_pais L s)) = catalogo s
   \<or> (\<exists>p a b c. catalogo (snd (agregar_pais L s)) = catalogo s @ [p]
         \<and> nombre p \<noteq> [] \<and> continente p = Some c \<and> c \<noteq> []
         \<and> py_isdigit L a \<and> py_int L a = Some (poblacion p)
         \<and> py_isdigit L b \<and> py_int L b = Some (superficie p))"
  by (auto simp: agregar_pais_def input_def Let_def guardar_archivo_def
           split: list.splits option.splits if_splits)

lemma agregar_pais_valido:
  assumes "digitos_no_negativos L"
  shows "catalogo (snd (agregar_pais L s)) = catalogo s
       \<or> (\<exists>p. catalogo (snd (agregar_pais L s)) = catalogo s @ [p] \<and> valido p)"
  using agregar_pais_registro_nuevo [of L s] assms
  by (auto simp: valido_def digitos_no_negativos_def)

lemma valido_es_valido_carga: "valido p \<Longrightarrow> valido_carga p"
  by (simp add: valido_def valido_carga_def)

lemma list_all_escritura:
  assumes "list_all P xs" and "P (xs ! i) \<Longrightarrow> P y"
  shows "list_all P (xs[i := y])"
proof (cases "i < length xs")
  case True
  with assms have "P y" by (simp add: list_all_length)
  moreover have "set (xs[i := y]) \<subseteq> insert y (set xs)" by (rule set_update_subset_insert)
  ultimately show ?thesis using assms(1) by (auto simp: list_all_iff)
next
  case False
  with assms(1) show ?thesis by (simp add: list_update_beyond)
qed

lemma actualizar_pais_catalogo:
  "catalogo (snd (actualizar_pais L s)) = catalogo s
   \<or> (\<exists>i a pob. py_isdigit L a \<and> py_int L a = Some pob
        \<and> (catalogo (snd (actualizar_pais L s))
              = (catalogo s)[i := (catalogo s ! i)\<lparr>poblacion := pob\<rparr>]
           \<or> (\<exists>b supe. py_isdigit L b \<and> py_int L b = Some supe
                \<and> catalogo (snd (actualizar_pais L s))
                    = (catalogo s)[i := (catalogo s ! i)\<lparr>poblacion := pob, superficie := supe\<rparr>])))"
proof -
  have e: "xs[i := (xs[i := (xs ! i)\<lparr>poblacion := a\<rparr>] ! i)\<lparr>superficie := b\<rparr>]
         = xs[i := (xs ! i)\<lparr>poblacion := a, superficie := b\<rparr>]"
    for xs :: "pais list" and i a b
    by (cases "i < length xs") (simp_all add: list_update_beyond)
  show ?thesis
    by (simp add: actualizar_pais_def input_def Let_def guardar_archivo_def e
           split: list.splits option.splits) blast
qed

lemma actualizar_pais_valido:
  assumes "digitos_no_negativos L"
  shows "list_all valido (catalogo s) \<Longrightarrow> list_all valido (catalogo (snd (actualizar_pais L s)))"
    and "list_all valido_carga (catalogo s)
         \<Longrightarrow> list_all valido_carga (catalogo (snd (actualizar_pais L s)))"
proof -
  have v: "list_all P (catalogo (snd (actualizar_pais L s)))"
    if "list_all P (catalogo s)"
      and "\<And>p a b. P p \<Longrightarrow> 0 \<le> a \<Longrightarrow> P (p\<lparr>poblacion := a\<rparr>)"
      and "\<And>p a b. P p \<Longrightarrow> 0 \<le> a \<Longrightarrow> 0 \<le> b \<Longrightarrow> P (p\<lparr>poblacion := a, superficie := b\<rparr>)"
    for P
    using actualizar_pais_catalogo [of L s] assms that
    by (auto simp: digitos_no_negativos_def intro!: list_all_escritura)
  show "list_all valido (catalogo s) \<Longrightarrow> list_all valido (catalogo (snd (actualizar_pais L s)))"
    by (rule v) (simp_all add: valido_def)
  show "list_all valido_carga (catalogo s)
         \<Longrightarrow> list_all valido_carga (catalogo (snd (actualizar_pais L s)))"
    by (rule v) (simp_all add: valido_carga_def)
qed

lemma digitos_no_negativos_latin1: "digitos_no_negativos py_latin1"
proof -
  have "0 \<le> n" if d: "isdigit_latin1 t" and i: "int_latin1 t = Some n" for t n
  proof -
    define t' where
      "t' = rev (dropWhile espacio_int_latin1 (rev (dropWhile espacio_int_latin1 t)))"
    have "set t' \<subseteq> set t"
      unfolding t'_def by (auto dest!: set_dropWhileD)
    moreover from d have "\<forall>c\<in>set t. c \<noteq> 45"
      by (auto simp: isdigit_latin1_def list_all_iff)
    ultimately have "\<not> (t' \<noteq> [] \<and> hd t' = 45)"
      by (metis hd_in_set subsetD)
    with i show ?thesis
      by (auto simp: int_latin1_def Let_def t'_def split: if_splits)
  qed
  then show ?thesis by (auto simp: digitos_no_negativos_def py_latin1_sel)
qed

lemma leer_ej_archivo_sin_continente:
  "fst (leer_archivo py_latin1 ej_archivo_sin_continente)
     = Inr [\<lparr>nombre = u ''Peru'', poblacion = 33, superficie = 1285, continente = Some []\<rparr>,
            ej_china]"
  by (simp add: leer_archivo_def ej_archivo_sin_continente_def crear_sino_existe_def
        encabezado_def leer_fila_def fila_dict_def latin1_eval ej_china_def)

text \<open>
  C2, amended. Every record loaded by \<^verbatim>\<open>leer_archivo\<close> has a non-empty name and a
  non-negative population and area; its continent is not checked. Under the header the
  program writes, a load that returns keeps, in file order, exactly the rows whose name
  is not empty and whose population and area fields satisfy \<^verbatim>\<open>isdigit\<close>, each as the
  record of its fields, and skips every other row. Every record appended by
  \<^verbatim>\<open>agregar_pais\<close> has a non-empty name, a non-negative population and area and a
  non-empty continent. Adds and updates keep a catalogue of records valid in the full
  sense valid, and a catalogue of records valid in the sense of the load valid in that
  sense. Non-negativity holds for every library in which a string of digits names no
  negative integer.
\<close>

theorem registros_validos:
  "(digitos_no_negativos L \<and> fst (leer_archivo L s) = Inr cat \<longrightarrow> list_all valido_carga cat)
   \<and> (archivo s = Some (encabezado # filas) \<and> fst (leer_archivo L s) = Inr cat
        \<longrightarrow> list_all2 (registro_de L) cat (filter (fila_aceptada L) filas))
   \<and> (digitos_no_negativos L
        \<longrightarrow> catalogo (snd (agregar_pais L s)) = catalogo s
          \<or> (\<exists>p. catalogo (snd (agregar_pais L s)) = catalogo s @ [p] \<and> valido p))
   \<and> (digitos_no_negativos L \<and> list_all valido (catalogo s)
        \<longrightarrow> list_all valido (catalogo (snd (agregar_pais L s)))
          \<and> list_all valido (catalogo (snd (actualizar_pais L s))))
   \<and> (digitos_no_negativos L \<and> list_all valido_carga (catalogo s)
        \<longrightarrow> list_all valido_carga (catalogo (snd (agregar_pais L s)))
          \<and> list_all valido_carga (catalogo (snd (actualizar_pais L s))))"
proof -
  have a: "list_all valido_carga cat"
    if "digitos_no_negativos L" "fst (leer_archivo L s) = Inr cat"
  proof -
    from that(2) have "cat = [] \<or> (\<exists>campos fs. leer_filas L campos fs [] = Inr cat)"
      by (auto simp: leer_archivo_def split: sum.splits option.splits list.splits)
    with that(1) leer_filas_validos [of L "[]" _ _ cat] show ?thesis by auto
  qed
  have b: "list_all2 (registro_de L) cat (filter (fila_aceptada L) filas)"
    if "archivo s = Some (encabezado # filas)" "fst (leer_archivo L s) = Inr cat"
  proof -
    from that have "leer_filas L encabezado filas [] = Inr cat"
      by (simp add: leer_archivo_def crear_sino_existe_def)
    from leer_filas_aceptadas [OF this] show ?thesis by simp
  qed
  have c: "catalogo (snd (agregar_pais L s)) = catalogo s
          \<or> (\<exists>p. catalogo (snd (agregar_pais L s)) = catalogo s @ [p] \<and> valido p)"
    if "digitos_no_negativos L"
    using that by (rule agregar_pais_valido)
  have d: "list_all valido (catalogo (snd (agregar_pais L s)))"
    if "digitos_no_negativos L" "list_all valido (catalogo s)"
    using c [OF that(1)] that(2) by auto
  have e: "list_all valido_carga (catalogo (snd (agregar_pais L s)))"
    if "digitos_no_negativos L" "list_all valido_carga (catalogo s)"
    using c [OF that(1)] that(2) by (auto simp: valido_es_valido_carga)
  from a b c d e actualizar_pais_valido [of L s] show ?thesis by blast
qed

theorem registros_validos_witness:
  "list_all valido_carga
     [\<lparr>nombre = u ''Peru'', poblacion = 33, superficie = 1285, continente = Some []\<rparr>, ej_china]
   \<and> list_all2 (registro_de py_latin1)
       [\<lparr>nombre = u ''Peru'', poblacion = 33, superficie = 1285, continente = Some []\<rparr>, ej_china]
       [[u ''Peru'', u ''33'', u ''1285'', []], [u ''China'', u ''1400'', u ''9597'', u ''Asia'']]
   \<and> list_all valido (catalogo (snd (agregar_pais py_latin1 ej_alta_peru)))
   \<and> list_all valido_carga (catalogo (snd (actualizar_pais py_latin1
        (ej_estado [ej_india, ej_indiana] [u ''india'', u ''1500'', u ''3300'']))))"
proof -
  let ?cat = "[\<lparr>nombre = u ''Peru'', poblacion = 33, superficie = 1285, continente = Some []\<rparr>,
               ej_china]"
  let ?filas = "[[u ''Peru'', u ''33'', u ''1285'', []],
                 [[], u ''1'', u ''2'', u ''Asia''],
                 [u ''Chile'', u ''-19'', u ''756'', u ''America''],
                 [u ''China'', u ''1400'', u ''9597'', u ''Asia'']]"
  let ?act = "ej_estado [ej_india, ej_indiana] [u ''india'', u ''1500'', u ''3300'']"
  note dn = digitos_no_negativos_latin1
  note l = leer_ej_archivo_sin_continente
  have f: "archivo ej_archivo_sin_continente = Some (encabezado # ?filas)"
    by (simp add: ej_archivo_sin_continente_def)
  have ac: "filter (fila_aceptada py_latin1) ?filas
        = [[u ''Peru'', u ''33'', u ''1285'', []], [u ''China'', u ''1400'', u ''9597'', u ''Asia'']]"
    by (simp add: fila_aceptada_def latin1_eval)
  have v1: "list_all valido (catalogo ej_alta_peru)"
    by (simp add: ej_alta_peru_def ej_defs valido_def u_def)
  have v2: "list_all valido_carga (catalogo ?act)"
    by (simp add: ej_defs ej_india_def ej_indiana_def valido_carga_def u_def)
  from registros_validos [of py_latin1 ej_archivo_sin_continente ?cat ?filas] dn l f
  have "list_all valido_carga ?cat"
    "list_all2 (registro_de py_latin1) ?cat (filter (fila_aceptada py_latin1) ?filas)"
    by blast+
  moreover from registros_validos [of py_latin1 ej_alta_peru] dn v1
  have "list_all valido (catalogo (snd (agregar_pais py_latin1 ej_alta_peru)))"
    by blast
  moreover from registros_validos [of py_latin1 ?act] dn v2
  have "list_all valido_carga (catalogo (snd (actualizar_pais py_latin1 ?act)))"
    by blast
  ultimately show ?thesis by (simp only: ac)
qed

text \<open>
  C2 as stated fails for a loaded record: a stored row with an empty continent field is
  loaded, and the record does not satisfy the validation.
\<close>

theorem leer_archivo_continente_vacio_counterexample:
  "fst (leer_archivo py_latin1 ej_archivo_sin_continente)
     = Inr [\<lparr>nombre = u ''Peru'', poblacion = 33, superficie = 1285, continente = Some []\<rparr>,
            ej_china]
   \<and> \<not> valido \<lparr>nombre = u ''Peru'', poblacion = 33, superficie = 1285, continente = Some []\<rparr>"
  by (simp add: leer_ej_archivo_sin_continente valido_def)

end
